theory Spec2Isabelle
  imports Main "HOL-Library.AList"
begin

section \<open>Errors\<close>

text \<open>
  Go errors are values. The controller only ever asks three questions of an error:
  \<^verbatim>\<open>apierrors.IsNotFound\<close>, \<^verbatim>\<open>errors.As\<close> against
  \<^verbatim>\<open>*serviceerror.NamespaceAlreadyExists\<close> and against
  \<^verbatim>\<open>*serviceerror.NamespaceNotFound\<close>; it also reads the message with
  \<^verbatim>\<open>err.Error()\<close>. An error is therefore a kind and a message.
  \<^verbatim>\<open>fmt.Errorf("...: %w", err)\<close> wraps: the message gets a prefix and the kind stays
  visible through the chain.
\<close>

datatype errKind = ApiNotFound | NamespaceAlreadyExists | NamespaceNotFound | OtherError

datatype error = Error (kind: errKind) (Error_string: string)

definition Errorf_w :: "string \<Rightarrow> error \<Rightarrow> error" where
  "Errorf_w prefix e = Error (kind e) (prefix @ Error_string e)"

definition Errorf :: "string \<Rightarrow> error" where
  "Errorf m = Error OtherError m"

definition IsNotFound :: "error \<Rightarrow> bool" where
  "IsNotFound e = (kind e = ApiNotFound)"

section \<open>Search attribute types\<close>

text \<open>
  \<^verbatim>\<open>enums.IndexedValueType\<close> of the Temporal API. The shorthand table
  \<^verbatim>\<open>enums.IndexedValueType_shorthandValue\<close>, the method \<^verbatim>\<open>String()\<close> and
  \<^verbatim>\<open>strings.EqualFold\<close> belong to libraries outside the repository: the functions
  below take them as the parameter \<open>lib\<close>. The list order of the table stands for
  the order in which one run of the Go loop visits the table.
\<close>

datatype IndexedValueType =
  INDEXED_VALUE_TYPE_UNSPECIFIED
  | INDEXED_VALUE_TYPE_TEXT
  | INDEXED_VALUE_TYPE_KEYWORD
  | INDEXED_VALUE_TYPE_INT
  | INDEXED_VALUE_TYPE_DOUBLE
  | INDEXED_VALUE_TYPE_BOOL
  | INDEXED_VALUE_TYPE_DATETIME
  | INDEXED_VALUE_TYPE_KEYWORD_LIST

record lib =
  EqualFold :: "string \<Rightarrow> string \<Rightarrow> bool"
  IndexedValueType_shorthandValue :: "(string \<times> IndexedValueType) list"
  IndexedValueType_String :: "IndexedValueType \<Rightarrow> string"

text \<open>The loop of \<^verbatim>\<open>searchAttributeTypeStringToEnum\<close> over the table.\<close>

fun shorthandLoop ::
  "(string \<Rightarrow> string \<Rightarrow> bool) \<Rightarrow> (string \<times> IndexedValueType) list \<Rightarrow> string
    \<Rightarrow> error + IndexedValueType" where
  "shorthandLoop eqf [] s = Inl (Errorf (''unsupported search attribute type: '' @ s))"
| "shorthandLoop eqf ((k, v) # kvs) s = (if eqf s k then Inr v else shorthandLoop eqf kvs s)"

definition searchAttributeTypeStringToEnum :: "lib \<Rightarrow> string \<Rightarrow> error + IndexedValueType" where
  "searchAttributeTypeStringToEnum l s =
     shorthandLoop (EqualFold l) (IndexedValueType_shorthandValue l) s"

text \<open>
  A concrete library for evaluation: ASCII case folding and the shorthand names of the
  Temporal API. Go's \<^verbatim>\<open>strings.EqualFold\<close> folds Unicode (the Kelvin sign equals
  \<open>k\<close> under it); \<open>EqualFoldASCII\<close> agrees with it on ASCII strings only. It is
  used on the ASCII strings of the concrete passes and nowhere else: every general
  statement below takes the library as the parameter \<open>l\<close>.
\<close>

definition toLowerASCII :: "char \<Rightarrow> char" where
  "toLowerASCII c =
     (let n = (of_char c :: nat) in if 65 \<le> n \<and> n \<le> 90 then char_of (n + 32) else c)"

definition EqualFoldASCII :: "string \<Rightarrow> string \<Rightarrow> bool" where
  "EqualFoldASCII s t = (map toLowerASCII s = map toLowerASCII t)"

fun shorthandString :: "IndexedValueType \<Rightarrow> string" where
  "shorthandString INDEXED_VALUE_TYPE_UNSPECIFIED = ''Unspecified''"
| "shorthandString INDEXED_VALUE_TYPE_TEXT = ''Text''"
| "shorthandString INDEXED_VALUE_TYPE_KEYWORD = ''Keyword''"
| "shorthandString INDEXED_VALUE_TYPE_INT = ''Int''"
| "shorthandString INDEXED_VALUE_TYPE_DOUBLE = ''Double''"
| "shorthandString INDEXED_VALUE_TYPE_BOOL = ''Bool''"
| "shorthandString INDEXED_VALUE_TYPE_DATETIME = ''Datetime''"
| "shorthandString INDEXED_VALUE_TYPE_KEYWORD_LIST = ''KeywordList''"

definition temporalLib :: lib where
  "temporalLib =
     \<lparr> EqualFold = EqualFoldASCII,
       IndexedValueType_shorthandValue =
         map (\<lambda>t. (shorthandString t, t))
           [INDEXED_VALUE_TYPE_UNSPECIFIED, INDEXED_VALUE_TYPE_TEXT, INDEXED_VALUE_TYPE_KEYWORD,
            INDEXED_VALUE_TYPE_INT, INDEXED_VALUE_TYPE_DOUBLE, INDEXED_VALUE_TYPE_BOOL,
            INDEXED_VALUE_TYPE_DATETIME, INDEXED_VALUE_TYPE_KEYWORD_LIST],
       IndexedValueType_String = shorthandString \<rparr>"

section \<open>Remote platform calls\<close>

text \<open>
  Every use of the Temporal client is recorded, in order, in a trace. \<open>GetClient k ok\<close>
  is a call of \<^verbatim>\<open>temporal.GetClusterNamespaceClient\<close> (\<open>NamespaceClient\<close>) or of
  \<^verbatim>\<open>temporal.GetClusterClient\<close> (\<open>ClusterClient\<close>); \<open>ok\<close> tells whether a client
  was returned, that is, whether a connection is now open. \<open>Close k\<close> is
  \<^verbatim>\<open>client.Close()\<close>. The other events are the requests sent over a client; each
  carries the namespace name it names.
\<close>

datatype clientKind = NamespaceClient | ClusterClient

datatype call =
  GetClient clientKind bool
  | Close clientKind
  | Register string
  | Update string
  | DeleteNamespace string
  | ListSearchAttributes string
  | RemoveSearchAttributes string "string list"
  | AddSearchAttributes string "(string \<times> IndexedValueType) list"

section \<open>Objects of the local store\<close>

text \<open>
  Conditions are keyed by type within an object. The transition time is left out: it is
  wall-clock time and no function below reads it.
\<close>

datatype conditionType = ReadyCondition | ReconcileSuccessCondition | ReconcileErrorCondition

datatype ConditionStatus = ConditionTrue | ConditionFalse | ConditionUnknown

record Condition =
  Status :: ConditionStatus
  Reason :: string
  Message :: string

text \<open>
  \<^verbatim>\<open>v1beta1.TemporalNamespace\<close>, with the fields the controller reads or writes.
  \<open>DeletionTimestamp\<close> is a pointer to a time; \<^verbatim>\<open>IsZero()\<close> holds of the nil
  pointer and of the zero time. A Go map is an association list with distinct keys;
  its order stands for the order in which a \<^verbatim>\<open>range\<close> loop visits it.
\<close>

record TemporalNamespace =
  Name :: string
  DeletionTimestamp :: "nat option"
  Finalizers :: "string list"
  AllowDeletion :: bool
  CustomSearchAttributes :: "(string \<times> string) list"
  Conditions :: "(conditionType \<times> Condition) list"

definition IsZero :: "nat option \<Rightarrow> bool" where
  "IsZero t = (case t of None \<Rightarrow> True | Some n \<Rightarrow> n = 0)"

record TemporalCluster =
  ClusterName :: string
  ClusterConditions :: "(conditionType \<times> Condition) list"

definition IsReady :: "TemporalCluster \<Rightarrow> bool" where
  \<comment> \<open>Modelled from the spec: \<^verbatim>\<open>TemporalCluster.IsReady\<close> is declared outside the
      given sources; a Ready condition with status True is the contract the dependency
      check relies on.\<close>
  "IsReady c =
     (case map_of (ClusterConditions c) ReadyCondition of
        None \<Rightarrow> False
      | Some cond \<Rightarrow> Status cond = ConditionTrue)"

definition setCondition ::
  "conditionType \<Rightarrow> ConditionStatus \<Rightarrow> string \<Rightarrow> string \<Rightarrow> TemporalNamespace \<Rightarrow> TemporalNamespace" where
  \<comment> \<open>Modelled from the spec: the condition setters of the API package
      (\<^verbatim>\<open>SetTemporalNamespaceReady\<close>, \<^verbatim>\<open>SetTemporalNamespaceReconcileSuccess\<close>,
      \<^verbatim>\<open>SetTemporalNamespaceReconcileError\<close>) are outside the given sources;
      conditions are keyed by type and a set replaces the entry of its type.\<close>
  "setCondition ty st reason msg n =
     n\<lparr>Conditions :=
         AList.update ty \<lparr>Status = st, Reason = reason, Message = msg\<rparr> (Conditions n)\<rparr>"

definition SetTemporalNamespaceReady ::
  "TemporalNamespace \<Rightarrow> ConditionStatus \<Rightarrow> string \<Rightarrow> string \<Rightarrow> TemporalNamespace" where
  "SetTemporalNamespaceReady n st reason msg = setCondition ReadyCondition st reason msg n"

definition SetTemporalNamespaceReconcileSuccess ::
  "TemporalNamespace \<Rightarrow> ConditionStatus \<Rightarrow> string \<Rightarrow> string \<Rightarrow> TemporalNamespace" where
  "SetTemporalNamespaceReconcileSuccess n st reason msg =
     setCondition ReconcileSuccessCondition st reason msg n"

definition SetTemporalNamespaceReconcileError ::
  "TemporalNamespace \<Rightarrow> ConditionStatus \<Rightarrow> string \<Rightarrow> string \<Rightarrow> TemporalNamespace" where
  "SetTemporalNamespaceReconcileError n st reason msg =
     setCondition ReconcileErrorCondition st reason msg n"

text \<open>
  The reason strings and the finalizer marker are constants of the repository declared
  outside the given sources; only their identity matters below.
\<close>

definition ReconcileErrorReason :: string where
  \<comment> \<open>Modelled from the spec: the reason code of the ReconcileError condition.\<close>
  "ReconcileErrorReason = ''ReconcileError''"

definition ReconcileSuccessReason :: string where
  \<comment> \<open>Modelled from the spec: the reason code of the ReconcileSuccess condition.\<close>
  "ReconcileSuccessReason = ''ReconcileSuccess''"

definition TemporalNamespaceCreatedReason :: string where
  \<comment> \<open>Modelled from the spec: the reason code of the Ready condition.\<close>
  "TemporalNamespaceCreatedReason = ''TemporalNamespaceCreated''"

definition deletionFinalizer :: string where
  \<comment> \<open>Modelled from the spec: the opaque finalizer marker.\<close>
  "deletionFinalizer = ''deletion.finalizers.temporal.io''"

text \<open>
  \<^verbatim>\<open>controllerutil\<close>: finalizers are a list used as a set; adding is idempotent and
  removing drops every occurrence.
\<close>

definition ContainsFinalizer :: "TemporalNamespace \<Rightarrow> string \<Rightarrow> bool" where
  "ContainsFinalizer n f = (f \<in> set (Finalizers n))"

definition AddFinalizer :: "TemporalNamespace \<Rightarrow> string \<Rightarrow> TemporalNamespace" where
  "AddFinalizer n f =
     (if f \<in> set (Finalizers n) then n else n\<lparr>Finalizers := Finalizers n @ [f]\<rparr>)"

definition RemoveFinalizer :: "TemporalNamespace \<Rightarrow> string \<Rightarrow> TemporalNamespace" where
  "RemoveFinalizer n f = n\<lparr>Finalizers := filter (\<lambda>g. g \<noteq> f) (Finalizers n)\<rparr>"

section \<open>The world of one reconcile pass\<close>

text \<open>
  What the object store, the client constructors and the remote platform answer during
  one pass. Each of these calls is made at most once per pass, so one answer per call
  describes the pass completely.
\<close>

record world =
  Get_namespace :: "error + TemporalNamespace"
  NewHelper_result :: "error option"
  Patch_result :: "error option"
  Get_cluster :: "error + TemporalCluster"
  GetClusterNamespaceClient_result :: "error option"
  Register_result :: "error option"
  Update_result :: "error option"
  GetClusterClient_result :: "error option"
  DeleteNamespace_result :: "error option"
  ListSearchAttributes_result :: "error + (string \<times> IndexedValueType) list"
  RemoveSearchAttributes_result :: "error option"
  AddSearchAttributes_result :: "error option"

section \<open>The attribute-set reconciler\<close>

text \<open>
  The three loops of \<^verbatim>\<open>reconcileCustomSearchAttributes\<close>: the translation of the
  spec's string map into a typed map, the names to remove, and the pairs to add with
  the type conflict check.
\<close>

fun specLoop ::
  "lib \<Rightarrow> (string \<times> string) list \<Rightarrow> (string \<times> IndexedValueType) list
    \<Rightarrow> error + (string \<times> IndexedValueType) list" where
  "specLoop l [] acc = Inr acc"
| "specLoop l ((nameString, typeString) # rest) acc =
     (case searchAttributeTypeStringToEnum l typeString of
        Inl e \<Rightarrow>
          Inl (Errorf_w (''failed to parse search attribute '' @ nameString
                 @ '' because its type is '' @ typeString @ '': '') e)
      | Inr indexedValueType \<Rightarrow> specLoop l rest (AList.update nameString indexedValueType acc))"

fun removeLoop ::
  "(string \<times> IndexedValueType) list \<Rightarrow> (string \<times> IndexedValueType) list \<Rightarrow> string list
    \<Rightarrow> string list" where
  "removeLoop spec [] acc = acc"
| "removeLoop spec ((serverName, serverType) # rest) acc =
     (if map_of spec serverName = None then removeLoop spec rest (acc @ [serverName])
      else removeLoop spec rest acc)"

fun addLoop ::
  "lib \<Rightarrow> (string \<times> IndexedValueType) list \<Rightarrow> (string \<times> IndexedValueType) list
    \<Rightarrow> (string \<times> IndexedValueType) list \<Rightarrow> error + (string \<times> IndexedValueType) list" where
  "addLoop l server [] acc = Inr acc"
| "addLoop l server ((specName, specType) # rest) acc =
     (case map_of server specName of
        None \<Rightarrow> addLoop l server rest (AList.update specName specType acc)
      | Some serverType \<Rightarrow>
          if specType \<noteq> serverType
          then Inl (Errorf (''search attribute '' @ specName
                      @ '' already exists and has different type ''
                      @ IndexedValueType_String l serverType))
          else addLoop l server rest acc)"

text \<open>The two conditional requests at the end, each with the trace so far.\<close>

definition removeRequest ::
  "world \<Rightarrow> string \<Rightarrow> string list \<Rightarrow> call list \<Rightarrow> error option \<times> call list" where
  "removeRequest w ns toRemove tr =
     (if length toRemove > 0
      then (case RemoveSearchAttributes_result w of
              Some e \<Rightarrow>
                (Some (Errorf_w ''failed to remove search attributes: '' e),
                 tr @ [RemoveSearchAttributes ns toRemove])
            | None \<Rightarrow> (None, tr @ [RemoveSearchAttributes ns toRemove]))
      else (None, tr))"

definition addRequest ::
  "world \<Rightarrow> string \<Rightarrow> (string \<times> IndexedValueType) list \<Rightarrow> call list
    \<Rightarrow> error option \<times> call list" where
  "addRequest w ns toAdd tr =
     (if length toAdd > 0
      then (case AddSearchAttributes_result w of
              Some e \<Rightarrow>
                (Some (Errorf_w ''failed to add search attributes: '' e),
                 tr @ [AddSearchAttributes ns toAdd])
            | None \<Rightarrow> (None, tr @ [AddSearchAttributes ns toAdd]))
      else (None, tr))"

text \<open>
  \<^verbatim>\<open>reconcileCustomSearchAttributes\<close>. It returns the error (if any) and the trace
  of its client calls. The client it obtains is never closed in this function.
\<close>

definition reconcileCustomSearchAttributes ::
  "lib \<Rightarrow> world \<Rightarrow> TemporalNamespace \<Rightarrow> error option \<times> call list" where
  "reconcileCustomSearchAttributes l w namespace =
     (case GetClusterClient_result w of
        Some e \<Rightarrow> (Some e, [GetClient ClusterClient False])
      | None \<Rightarrow>
          let ns = Name namespace;
              tr = [GetClient ClusterClient True, ListSearchAttributes ns]
          in (case ListSearchAttributes_result w of
                Inl e \<Rightarrow> (Some e, tr)
              | Inr serverCustomSearchAttributes \<Rightarrow>
                  (case specLoop l (CustomSearchAttributes namespace) [] of
                     Inl e \<Rightarrow> (Some e, tr)
                   | Inr specCustomSearchAttributes \<Rightarrow>
                       let customSearchAttributesToRemove =
                             removeLoop specCustomSearchAttributes serverCustomSearchAttributes []
                       in (case addLoop l serverCustomSearchAttributes
                                  specCustomSearchAttributes [] of
                             Inl e \<Rightarrow> (Some e, tr)
                           | Inr customSearchAttributesToAdd \<Rightarrow>
                               (case removeRequest w ns customSearchAttributesToRemove tr of
                                  (Some e, tr') \<Rightarrow> (Some e, tr')
                                | (None, tr') \<Rightarrow>
                                    addRequest w ns customSearchAttributesToAdd tr')))))"

text \<open>
  The remote platform's side of the two mutating requests, on its attribute mapping:
  a removal deletes the named entries, an addition stores the given pairs. Every other
  call leaves the mapping as it is.
\<close>

fun remoteApply ::
  "call \<Rightarrow> (string \<rightharpoonup> IndexedValueType) \<Rightarrow> (string \<rightharpoonup> IndexedValueType)" where
  "remoteApply (RemoveSearchAttributes ns names) m = m |` (- set names)"
| "remoteApply (AddSearchAttributes ns kvs) m = m ++ map_of kvs"
| "remoteApply c m = m"

section \<open>The namespace reconciler\<close>

text \<open>
  \<^verbatim>\<open>ctrl.Result\<close>; a duration is a number of nanoseconds.
\<close>

record Result =
  Requeue :: bool
  RequeueAfter :: int

definition Second :: int where
  "Second = 1000000000"

definition emptyResult :: Result where
  "emptyResult = \<lparr>Requeue = False, RequeueAfter = 0\<rparr>"

definition handleSuccessWithRequeue ::
  "TemporalNamespace \<Rightarrow> int \<Rightarrow> TemporalNamespace \<times> Result \<times> error option" where
  "handleSuccessWithRequeue namespace requeueAfter =
     (SetTemporalNamespaceReconcileSuccess namespace ConditionTrue ReconcileSuccessReason [],
      \<lparr>Requeue = False, RequeueAfter = requeueAfter\<rparr>, None)"

definition handleSuccess :: "TemporalNamespace \<Rightarrow> TemporalNamespace \<times> Result \<times> error option" where
  "handleSuccess namespace = handleSuccessWithRequeue namespace 0"

definition handleErrorWithRequeue ::
  "TemporalNamespace \<Rightarrow> string \<Rightarrow> error \<Rightarrow> int \<Rightarrow> TemporalNamespace \<times> Result \<times> error option" where
  "handleErrorWithRequeue namespace reason err requeueAfter =
     (let reason = (if reason = [] then ReconcileErrorReason else reason)
      in (SetTemporalNamespaceReconcileError namespace ConditionTrue reason (Error_string err),
          \<lparr>Requeue = False, RequeueAfter = requeueAfter\<rparr>, None))"

definition handleError ::
  "TemporalNamespace \<Rightarrow> string \<Rightarrow> error \<Rightarrow> TemporalNamespace \<times> Result \<times> error option" where
  "handleError namespace reason err = handleErrorWithRequeue namespace reason err 0"

definition ensureFinalizer :: "TemporalNamespace \<Rightarrow> TemporalNamespace" where
  "ensureFinalizer namespace =
     (if IsZero (DeletionTimestamp namespace) \<and> AllowDeletion namespace
      then AddFinalizer namespace deletionFinalizer
      else namespace)"

text \<open>
  \<^verbatim>\<open>ensureNamespaceDeleted\<close> returns its error, the namespace object as it leaves it
  and the trace of its client calls. The deferred \<^verbatim>\<open>client.Close()\<close> runs on every
  return after the client was obtained.
\<close>

definition ensureNamespaceDeleted ::
  "world \<Rightarrow> TemporalNamespace \<Rightarrow> TemporalCluster
    \<Rightarrow> error option \<times> TemporalNamespace \<times> call list" where
  "ensureNamespaceDeleted w namespace cluster =
     (if \<not> ContainsFinalizer namespace deletionFinalizer then (None, namespace, [])
      else
        (case GetClusterClient_result w of
           Some err \<Rightarrow>
             (Some (Errorf_w ''can't create cluster client: '' err), namespace,
              [GetClient ClusterClient False])
         | None \<Rightarrow>
             let tr = [GetClient ClusterClient True, DeleteNamespace (Name namespace),
                       Close ClusterClient]
             in (case DeleteNamespace_result w of
                   Some err \<Rightarrow>
                     if kind err = NamespaceNotFound
                     then (None, RemoveFinalizer namespace deletionFinalizer, tr)
                     else (Some (Errorf_w (''can't delete '' @ [CHR 0x22] @ Name namespace
                                    @ [CHR 0x22] @ '' namespace: '') err),
                           namespace, tr)
                 | None \<Rightarrow> (None, RemoveFinalizer namespace deletionFinalizer, tr))))"

text \<open>
  The outcome of one call of \<^verbatim>\<open>Reconcile\<close>: the returned result and error, the
  object handed to the deferred \<^verbatim>\<open>patchHelper.Patch\<close> (none when the pass ended
  before a patch helper existed), and the trace of client calls.
  \<^verbatim>\<open>kerrors.NewAggregate\<close> drops nil entries and keeps the others in a list.
\<close>

datatype reterr = NilErr | Plain error | Aggregate "error list"

record pass =
  result :: Result
  reterr :: reterr
  patched :: "TemporalNamespace option"
  calls :: "call list"

definition deferPatch ::
  "world \<Rightarrow> call list \<Rightarrow> TemporalNamespace \<times> Result \<times> error option \<Rightarrow> pass" where
  "deferPatch w tr out =
     (case out of (namespace, res, err) \<Rightarrow>
        \<lparr> result = res,
          reterr =
            (case Patch_result w of
               None \<Rightarrow> (case err of None \<Rightarrow> NilErr | Some e \<Rightarrow> Plain e)
             | Some perr \<Rightarrow> Aggregate ((case err of None \<Rightarrow> [] | Some e \<Rightarrow> [e]) @ [perr])),
          patched = Some namespace,
          calls = tr \<rparr>)"

text \<open>
  \<^verbatim>\<open>Reconcile\<close>. Two deferred calls are pending once the namespace client exists:
  \<^verbatim>\<open>client.Close()\<close> runs first, then the patch.
\<close>

definition Reconcile :: "lib \<Rightarrow> world \<Rightarrow> pass" where
  "Reconcile l w =
     (case Get_namespace w of
        Inl err \<Rightarrow>
          if IsNotFound err
          then \<lparr>result = emptyResult, reterr = NilErr, patched = None, calls = []\<rparr>
          else \<lparr>result = emptyResult, reterr = Plain err, patched = None, calls = []\<rparr>
      | Inr namespace \<Rightarrow>
          (case NewHelper_result w of
             Some err \<Rightarrow> \<lparr>result = emptyResult, reterr = Plain err, patched = None, calls = []\<rparr>
           | None \<Rightarrow>
               (case Get_cluster w of
                  Inl err \<Rightarrow>
                    if IsNotFound err \<and> \<not> IsZero (DeletionTimestamp namespace)
                    then deferPatch w []
                           (RemoveFinalizer namespace deletionFinalizer, emptyResult, None)
                    else deferPatch w [] (handleError namespace ReconcileErrorReason err)
                | Inr cluster \<Rightarrow>
                    if \<not> IsReady cluster
                    then deferPatch w []
                           (namespace, \<lparr>Requeue = False, RequeueAfter = 10 * Second\<rparr>, None)
                    else if \<not> IsZero (DeletionTimestamp namespace)
                    then (case ensureNamespaceDeleted w namespace cluster of
                            (Some err, namespace, tr) \<Rightarrow>
                              deferPatch w tr (handleError namespace ReconcileErrorReason err)
                          | (None, namespace, tr) \<Rightarrow>
                              deferPatch w tr (namespace, emptyResult, None))
                    else
                      let namespace = ensureFinalizer namespace
                      in (case GetClusterNamespaceClient_result w of
                            Some err \<Rightarrow>
                              deferPatch w [GetClient NamespaceClient False]
                                (handleError namespace ReconcileErrorReason
                                   (Errorf_w ''can't create cluster namespace client: '' err))
                          | None \<Rightarrow>
                              let tr = [GetClient NamespaceClient True, Register (Name namespace)];
                                  registered =
                                    (case Register_result w of
                                       None \<Rightarrow> (None, tr)
                                     | Some err \<Rightarrow>
                                         if kind err \<noteq> NamespaceAlreadyExists
                                         then (Some (Errorf_w (''can't create '' @ [CHR 0x22]
                                                        @ Name namespace @ [CHR 0x22]
                                                        @ '' namespace: '') err), tr)
                                         else (Update_result w, tr @ [Update (Name namespace)]))
                              in (case registered of
                                    (Some err, tr) \<Rightarrow>
                                      deferPatch w (tr @ [Close NamespaceClient])
                                        (handleError namespace ReconcileErrorReason err)
                                  | (None, tr) \<Rightarrow>
                                      (case reconcileCustomSearchAttributes l w namespace of
                                         (Some err, tr') \<Rightarrow>
                                           deferPatch w (tr @ tr' @ [Close NamespaceClient])
                                             (handleError namespace ReconcileErrorReason err)
                                       | (None, tr') \<Rightarrow>
                                           deferPatch w (tr @ tr' @ [Close NamespaceClient])
                                             (handleSuccess
                                                (SetTemporalNamespaceReady namespace ConditionTrue
                                                   TemporalNamespaceCreatedReason
                                                   ''Namespace successfully created''))))))))"

text \<open>
  The error that makes a pass over a fetched object fail: the first error that a step
  of \<^verbatim>\<open>Reconcile\<close> hands to \<^verbatim>\<open>handleError\<close>, in the order of the source, with
  the wrapping the source gives it; none when the pass ends on another path (finalizer
  drop, cluster not ready, deletion done, success).
\<close>

definition passError :: "lib \<Rightarrow> world \<Rightarrow> TemporalNamespace \<Rightarrow> error option" where
  "passError l w namespace =
     (case Get_cluster w of
        Inl err \<Rightarrow>
          if IsNotFound err \<and> \<not> IsZero (DeletionTimestamp namespace) then None else Some err
      | Inr cluster \<Rightarrow>
          if \<not> IsReady cluster then None
          else if \<not> IsZero (DeletionTimestamp namespace)
          then fst (ensureNamespaceDeleted w namespace cluster)
          else
            (case GetClusterNamespaceClient_result w of
               Some err \<Rightarrow> Some (Errorf_w ''can't create cluster namespace client: '' err)
             | None \<Rightarrow>
                 (case Register_result w of
                    None \<Rightarrow>
                      fst (reconcileCustomSearchAttributes l w (ensureFinalizer namespace))
                  | Some err \<Rightarrow>
                      if kind err \<noteq> NamespaceAlreadyExists
                      then Some (Errorf_w (''can't create '' @ [CHR 0x22] @ Name namespace
                                   @ [CHR 0x22] @ '' namespace: '') err)
                      else (case Update_result w of
                              Some err \<Rightarrow> Some err
                            | None \<Rightarrow>
                                fst (reconcileCustomSearchAttributes l w
                                       (ensureFinalizer namespace))))))"

text \<open>
  What the controller runtime does with the pair a reconciler returns: a non-nil error
  requeues the request with the rate limiter's backoff and ignores the result; without
  an error a positive \<open>RequeueAfter\<close> requeues after that delay, \<open>Requeue\<close> alone
  requeues with backoff, and the empty result forgets the request.
\<close>

datatype requeue = RequeueRateLimited | RequeueAfterDelay int | Forget

definition runtimeRequeue :: "Result \<Rightarrow> reterr \<Rightarrow> requeue" where
  "runtimeRequeue res err =
     (if err \<noteq> NilErr then RequeueRateLimited
      else if RequeueAfter res > 0 then RequeueAfterDelay (RequeueAfter res)
      else if Requeue res then RequeueRateLimited
      else Forget)"

section \<open>The cluster spec and its defaults\<close>

text \<open>
  The cluster spec, with the fields \<^verbatim>\<open>reconcileDefaults\<close> and the frontend service
  builder read or write. A nil pointer is \<open>None\<close>, an unset string is the empty
  string, a duration is a number of nanoseconds.
\<close>

record ServiceSpec =
  Replicas :: "int option"
  Port :: "int option"
  MembershipPort :: "int option"
  HTTPPort :: "int option"

record TemporalServicesSpec =
  Frontend :: "ServiceSpec option"
  History :: "ServiceSpec option"
  Matching :: "ServiceSpec option"
  Worker :: "ServiceSpec option"

record SQLSpec =
  ConnectAddr :: string
  ConnectProtocol :: string

record DatastoreSpec =
  DatastoreName :: string
  SQL :: "SQLSpec option"

record TemporalPersistenceSpec =
  DefaultStore :: string
  VisibilityStore :: string

record TemporalUISpec =
  UIVersion :: string
  UIImage :: string

record TemporalAdminToolsSpec =
  AdminToolsImage :: string

record CertificatesDurationSpec =
  RootCACertificate :: "int option"
  IntermediateCAsCertificates :: "int option"
  ClientCertificates :: "int option"
  FrontendCertificate :: "int option"
  InternodeCertificate :: "int option"

record MTLSSpec =
  Provider :: string
  RefreshInterval :: "int option"
  CertificatesDuration :: "CertificatesDurationSpec option"

record ClusterSpec =
  Version :: string
  Image :: string
  Services :: "TemporalServicesSpec option"
  Datastores :: "DatastoreSpec list"
  Persistence :: TemporalPersistenceSpec
  UI :: "TemporalUISpec option"
  AdminTools :: "TemporalAdminToolsSpec option"
  MTLS :: "MTLSSpec option"

definition defaultTemporalVersion :: string where
  "defaultTemporalVersion = ''1.17.4''"

definition defaultTemporalImage :: string where
  "defaultTemporalImage = ''temporalio/server''"

definition defaultTemporalUIVersion :: string where
  "defaultTemporalUIVersion = ''2.5.0''"

definition defaultTemporalUIImage :: string where
  "defaultTemporalUIImage = ''temporalio/ui''"

definition defaultTemporalAdmintoolsImage :: string where
  "defaultTemporalAdmintoolsImage = ''temporalio/admin-tools''"

definition Hour :: int where
  "Hour = 3600 * Second"

definition CertManagerMTLSProvider :: string where
  \<comment> \<open>Modelled from the spec: the provider name that enables managed mutual TLS.\<close>
  "CertManagerMTLSProvider = ''cert-manager''"

definition MTLSWithCertManagerEnabled :: "ClusterSpec \<Rightarrow> bool" where
  \<comment> \<open>Modelled from the spec: \<^verbatim>\<open>Cluster.MTLSWithCertManagerEnabled\<close> is declared
      outside the given sources; mutual TLS is enabled when its policy is present and
      names the certificate manager as provider.\<close>
  "MTLSWithCertManagerEnabled spec =
     (case MTLS spec of None \<Rightarrow> False | Some m \<Rightarrow> Provider m = CertManagerMTLSProvider)"

text \<open>
  The block \<^verbatim>\<open>reconcileDefaults\<close> repeats for each of the four services, with the
  service's default port and membership port: allocate the spec when nil, then replicas,
  port and membership port when nil.
\<close>

definition serviceDefaults :: "int \<Rightarrow> int \<Rightarrow> ServiceSpec option \<Rightarrow> ServiceSpec" where
  "serviceDefaults port membershipPort svc =
     (let s = (case svc of
                 None \<Rightarrow> \<lparr>Replicas = None, Port = None, MembershipPort = None, HTTPPort = None\<rparr>
               | Some s \<Rightarrow> s);
          s = (if Replicas s = None then s\<lparr>Replicas := Some 1\<rparr> else s);
          s = (if Port s = None then s\<lparr>Port := Some port\<rparr> else s);
          s = (if MembershipPort s = None then s\<lparr>MembershipPort := Some membershipPort\<rparr> else s)
      in s)"

definition datastoreDefaults :: "DatastoreSpec \<Rightarrow> DatastoreSpec" where
  "datastoreDefaults datastore =
     (case SQL datastore of
        None \<Rightarrow> datastore
      | Some sql \<Rightarrow>
          if ConnectProtocol sql = []
          then datastore\<lparr>SQL := Some (sql\<lparr>ConnectProtocol := ''tcp''\<rparr>)\<rparr>
          else datastore)"

definition certificatesDurationDefaults ::
  "CertificatesDurationSpec option \<Rightarrow> CertificatesDurationSpec" where
  "certificatesDurationDefaults cd =
     (let d = (case cd of
                 None \<Rightarrow> \<lparr>RootCACertificate = None, IntermediateCAsCertificates = None,
                           ClientCertificates = None, FrontendCertificate = None,
                           InternodeCertificate = None\<rparr>
               | Some d \<Rightarrow> d);
          d = (if RootCACertificate d = None
               then d\<lparr>RootCACertificate := Some (Hour * 87600)\<rparr> else d);
          d = (if IntermediateCAsCertificates d = None
               then d\<lparr>IntermediateCAsCertificates := Some (Hour * 43830)\<rparr> else d);
          d = (if ClientCertificates d = None
               then d\<lparr>ClientCertificates := Some (Hour * 8766)\<rparr> else d);
          d = (if FrontendCertificate d = None
               then d\<lparr>FrontendCertificate := Some (Hour * 8766)\<rparr> else d);
          d = (if InternodeCertificate d = None
               then d\<lparr>InternodeCertificate := Some (Hour * 8766)\<rparr> else d)
      in d)"

text \<open>
  \<^verbatim>\<open>reconcileDefaults\<close> mutates the cluster's spec in place, block after block, and
  returns whether the spec differs from the deep copy taken on entry. Each block is a
  function on the spec here, in the order of the source; the model returns the flag and
  the spec after the call.
\<close>

definition versionDefaults :: "ClusterSpec \<Rightarrow> ClusterSpec" where
  "versionDefaults spec =
     (if Version spec = [] then spec\<lparr>Version := defaultTemporalVersion\<rparr> else spec)"

definition imageDefaults :: "ClusterSpec \<Rightarrow> ClusterSpec" where
  "imageDefaults spec =
     (if Image spec = [] then spec\<lparr>Image := defaultTemporalImage\<rparr> else spec)"

definition servicesDefaults :: "ClusterSpec \<Rightarrow> ClusterSpec" where
  "servicesDefaults spec =
     (let services = (case Services spec of
                        None \<Rightarrow> \<lparr>Frontend = None, History = None, Matching = None, Worker = None\<rparr>
                      | Some s \<Rightarrow> s);
          services = services\<lparr>Frontend := Some (serviceDefaults 7233 6933 (Frontend services))\<rparr>;
          services = services\<lparr>History := Some (serviceDefaults 7234 6934 (History services))\<rparr>;
          services = services\<lparr>Matching := Some (serviceDefaults 7235 6935 (Matching services))\<rparr>;
          services = services\<lparr>Worker := Some (serviceDefaults 7239 6939 (Worker services))\<rparr>
      in spec\<lparr>Services := Some services\<rparr>)"

definition datastoresDefaults :: "ClusterSpec \<Rightarrow> ClusterSpec" where
  "datastoresDefaults spec = spec\<lparr>Datastores := map datastoreDefaults (Datastores spec)\<rparr>"

definition visibilityStoreDefaults :: "ClusterSpec \<Rightarrow> ClusterSpec" where
  "visibilityStoreDefaults spec =
     (if VisibilityStore (Persistence spec) = []
      then spec\<lparr>Persistence :=
             (Persistence spec)\<lparr>VisibilityStore := DefaultStore (Persistence spec)\<rparr>\<rparr>
      else spec)"

definition uiDefaults :: "ClusterSpec \<Rightarrow> ClusterSpec" where
  "uiDefaults spec =
     (let ui = (case UI spec of None \<Rightarrow> \<lparr>UIVersion = [], UIImage = []\<rparr> | Some u \<Rightarrow> u);
          ui = (if UIVersion ui = [] then ui\<lparr>UIVersion := defaultTemporalUIVersion\<rparr> else ui);
          ui = (if UIImage ui = [] then ui\<lparr>UIImage := defaultTemporalUIImage\<rparr> else ui)
      in spec\<lparr>UI := Some ui\<rparr>)"

definition adminToolsDefaults :: "ClusterSpec \<Rightarrow> ClusterSpec" where
  "adminToolsDefaults spec =
     (let adminTools = (case AdminTools spec of
                          None \<Rightarrow> \<lparr>AdminToolsImage = []\<rparr>
                        | Some a \<Rightarrow> a);
          adminTools = (if AdminToolsImage adminTools = []
                        then adminTools\<lparr>AdminToolsImage := defaultTemporalAdmintoolsImage\<rparr>
                        else adminTools)
      in spec\<lparr>AdminTools := Some adminTools\<rparr>)"

definition mtlsDefaults :: "ClusterSpec \<Rightarrow> ClusterSpec" where
  "mtlsDefaults spec =
     (if MTLSWithCertManagerEnabled spec
      then (case MTLS spec of
              None \<Rightarrow> spec
            | Some m \<Rightarrow>
                let m = (if RefreshInterval m = None
                         then m\<lparr>RefreshInterval := Some Hour\<rparr> else m);
                    m = m\<lparr>CertificatesDuration :=
                            Some (certificatesDurationDefaults (CertificatesDuration m))\<rparr>
                in spec\<lparr>MTLS := Some m\<rparr>)
      else spec)"

definition reconcileDefaults :: "ClusterSpec \<Rightarrow> bool \<times> ClusterSpec" where
  "reconcileDefaults before =
     (let spec = before;
          spec = versionDefaults spec;
          spec = imageDefaults spec;
          spec = servicesDefaults spec;
          spec = datastoresDefaults spec;
          spec = visibilityStoreDefaults spec;
          spec = uiDefaults spec;
          spec = adminToolsDefaults spec;
          spec = mtlsDefaults spec
      in (before \<noteq> spec, spec))"

section \<open>The frontend service builder\<close>

text \<open>
  \<^verbatim>\<open>corev1.Service\<close> with the fields \<^verbatim>\<open>FrontendServiceBuilder.Update\<close> writes.
  Label and annotation maps are association lists.
\<close>

record ServicePort =
  PortName :: string
  Protocol :: string
  PortNumber :: int
  TargetPort :: string

record Service =
  Labels :: "(string \<times> string) list"
  Annotations :: "(string \<times> string) list"
  ServiceType :: string
  Selector :: "(string \<times> string) list"
  Ports :: "ServicePort list"
  Owner :: "string option"

text \<open>
  The builder holds the cluster instance (\<open>builderInstance\<close> for the field \<^verbatim>\<open>instance\<close>). The label, annotation and selector sets that
  the metadata package derives from the instance, and the answer of
  \<^verbatim>\<open>controllerutil.SetControllerReference\<close>, come from outside the given sources and
  are fields of the builder here.
\<close>

record FrontendServiceBuilder =
  instanceName :: string
  builderInstance :: ClusterSpec
  GetLabels :: "(string \<times> string) list"
  GetAnnotations :: "(string \<times> string) list"
  LabelsSelector :: "(string \<times> string) list"
  SetControllerReference_result :: "error option"

definition Merge :: "(string \<times> string) list \<Rightarrow> (string \<times> string) list \<Rightarrow> (string \<times> string) list" where
  \<comment> \<open>Modelled from the spec: \<^verbatim>\<open>metadata.Merge\<close> is declared outside the given
      sources; the merge is a union in which the keys of the later map override.\<close>
  "Merge old new = AList.updates (map fst new) (map snd new) old"

text \<open>
  A Go call either returns or panics; dereferencing a nil pointer panics.
\<close>

datatype 'a go = Panics | Returns 'a

definition FrontendServiceBuilder_Update ::
  "FrontendServiceBuilder \<Rightarrow> Service \<Rightarrow> (error option \<times> Service) go" where
  "FrontendServiceBuilder_Update b object =
     (case Services (builderInstance b) of
        None \<Rightarrow> Panics
      | Some services \<Rightarrow>
          (case Frontend services of
             None \<Rightarrow> Panics
           | Some frontend \<Rightarrow>
               (case Port frontend of
                  None \<Rightarrow> Panics
                | Some port \<Rightarrow>
                    let service = object
                          \<lparr> Labels := Merge (Labels object) (GetLabels b),
                            Annotations := Merge (Annotations object) (GetAnnotations b),
                            ServiceType := ''ClusterIP'',
                            Selector := LabelsSelector b,
                            Ports := [\<lparr>PortName = ''grpc-rpc'', Protocol = ''TCP'',
                                       PortNumber = port, TargetPort = ''rpc''\<rparr>] \<rparr>;
                        service =
                          (case HTTPPort frontend of
                             None \<Rightarrow> service
                           | Some httpPort \<Rightarrow>
                               service\<lparr>Ports := Ports service
                                 @ [\<lparr>PortName = ''http'', Protocol = ''TCP'',
                                      PortNumber = httpPort, TargetPort = ''http''\<rparr>]\<rparr>)
                    in (case SetControllerReference_result b of
                          Some err \<Rightarrow>
                            Returns (Some (Errorf_w ''failed setting controller reference: '' err),
                                     service)
                        | None \<Rightarrow> Returns (None, service\<lparr>Owner := Some (instanceName b)\<rparr>)))))"

section \<open>Concrete passes\<close>

text \<open>
  Inputs on which the definitions are evaluated. World A is the pass of a live namespace
  \<open>orders\<close> against a ready cluster whose remote side answers every call with
  success: the spec declares \<open>CustomerId: Keyword\<close> and \<open>Amount: Int\<close>, the remote
  holds \<open>CustomerId: Keyword\<close> and \<open>Legacy: Text\<close>. The other worlds change one
  answer or one field of world A.
\<close>

definition readyCluster :: TemporalCluster where
  "readyCluster =
     \<lparr> ClusterName = ''prod'',
       ClusterConditions =
         [(ReadyCondition, \<lparr>Status = ConditionTrue, Reason = ''Ready'', Message = []\<rparr>)] \<rparr>"

definition notReadyCluster :: TemporalCluster where
  "notReadyCluster =
     \<lparr> ClusterName = ''prod'',
       ClusterConditions =
         [(ReadyCondition, \<lparr>Status = ConditionFalse, Reason = ''Starting'', Message = []\<rparr>)] \<rparr>"

definition namespaceA :: TemporalNamespace where
  "namespaceA =
     \<lparr> Name = ''orders'', DeletionTimestamp = None, Finalizers = [], AllowDeletion = False,
       CustomSearchAttributes = [(''CustomerId'', ''Keyword''), (''Amount'', ''Int'')],
       Conditions = [] \<rparr>"

definition remoteA :: "(string \<times> IndexedValueType) list" where
  "remoteA = [(''CustomerId'', INDEXED_VALUE_TYPE_KEYWORD), (''Legacy'', INDEXED_VALUE_TYPE_TEXT)]"

definition worldA :: world where
  "worldA =
     \<lparr> Get_namespace = Inr namespaceA, NewHelper_result = None, Patch_result = None,
       Get_cluster = Inr readyCluster, GetClusterNamespaceClient_result = None,
       Register_result = None, Update_result = None, GetClusterClient_result = None,
       DeleteNamespace_result = None, ListSearchAttributes_result = Inr remoteA,
       RemoveSearchAttributes_result = None, AddSearchAttributes_result = None \<rparr>"

text \<open>World B: the spec declares \<open>Amount: Int\<close>, the remote holds \<open>Amount: Text\<close>.\<close>

definition namespaceB :: TemporalNamespace where
  "namespaceB = namespaceA\<lparr>CustomSearchAttributes := [(''Amount'', ''Int'')]\<rparr>"

definition remoteB :: "(string \<times> IndexedValueType) list" where
  "remoteB = [(''Amount'', INDEXED_VALUE_TYPE_TEXT)]"

definition worldB :: world where
  "worldB = worldA\<lparr>Get_namespace := Inr namespaceB, ListSearchAttributes_result := Inr remoteB\<rparr>"

text \<open>The referenced cluster exists and is not ready.\<close>

definition worldNotReady :: world where
  "worldNotReady = worldA\<lparr>Get_cluster := Inr notReadyCluster\<rparr>"

text \<open>
  A namespace under deletion that carries the finalizer: once with its cluster gone from
  the store, once with the cluster ready and the remote deletion succeeding.
\<close>

definition namespaceDeleting :: TemporalNamespace where
  "namespaceDeleting =
     namespaceA\<lparr>DeletionTimestamp := Some 1, Finalizers := [deletionFinalizer],
                AllowDeletion := True\<rparr>"

definition worldClusterGone :: world where
  "worldClusterGone =
     worldA\<lparr>Get_namespace := Inr namespaceDeleting,
            Get_cluster := Inl (Error ApiNotFound ''temporalclusters prod not found'')\<rparr>"

definition worldDeleting :: world where
  "worldDeleting = worldA\<lparr>Get_namespace := Inr namespaceDeleting\<rparr>"

definition worldDeletingNotFound :: world where
  "worldDeletingNotFound =
     worldDeleting\<lparr>DeleteNamespace_result :=
                     Some (Error NamespaceNotFound ''namespace orders not found'')\<rparr>"

text \<open>
  A live namespace that carries the finalizer although its spec does not allow deletion
  (any more).
\<close>

definition namespaceRevoked :: TemporalNamespace where
  "namespaceRevoked = namespaceA\<lparr>Finalizers := [deletionFinalizer]\<rparr>"

definition worldRevoked :: world where
  "worldRevoked = worldA\<lparr>Get_namespace := Inr namespaceRevoked\<rparr>"

text \<open>A namespace under deletion that never carried the finalizer.\<close>

definition namespaceNoFinalizer :: TemporalNamespace where
  "namespaceNoFinalizer = namespaceA\<lparr>DeletionTimestamp := Some 1\<rparr>"

definition worldNoFinalizer :: world where
  "worldNoFinalizer = worldA\<lparr>Get_namespace := Inr namespaceNoFinalizer\<rparr>"

text \<open>The register call answers "already exists", or fails for another reason.\<close>

definition worldExists :: world where
  "worldExists =
     worldA\<lparr>Register_result := Some (Error NamespaceAlreadyExists ''namespace already exists'')\<rparr>"

definition worldRegisterFails :: world where
  "worldRegisterFails =
     worldA\<lparr>Register_result := Some (Error OtherError ''connection refused'')\<rparr>"

text \<open>
  Which client kinds a trace leaves open: those obtained and not closed afterwards.
\<close>

fun openClients :: "call list \<Rightarrow> clientKind list \<Rightarrow> clientKind list" where
  "openClients [] opened = opened"
| "openClients (GetClient k True # tr) opened = openClients tr (opened @ [k])"
| "openClients (Close k # tr) opened = openClients tr (remove1 k opened)"
| "openClients (c # tr) opened = openClients tr opened"

text \<open>A cluster spec with nothing set, and a frontend builder over its defaults.\<close>

definition emptySpec :: ClusterSpec where
  "emptySpec =
     \<lparr> Version = [], Image = [], Services = None, Datastores = [],
       Persistence = \<lparr>DefaultStore = [], VisibilityStore = []\<rparr>,
       UI = None, AdminTools = None, MTLS = None \<rparr>"

definition userSpec :: ClusterSpec where
  "userSpec =
     \<lparr> Version = ''1.20.0'', Image = [],
       Services = Some \<lparr> Frontend = Some \<lparr>Replicas = Some 3, Port = None,
                                          MembershipPort = None, HTTPPort = Some 7243\<rparr>,
                         History = None, Matching = None, Worker = None \<rparr>,
       Datastores = [\<lparr>DatastoreName = ''default'',
                       SQL = Some \<lparr>ConnectAddr = ''db:5432'', ConnectProtocol = []\<rparr>\<rparr>],
       Persistence = \<lparr>DefaultStore = ''default'', VisibilityStore = []\<rparr>,
       UI = None, AdminTools = None,
       MTLS = Some \<lparr>Provider = ''cert-manager'', RefreshInterval = None,
                     CertificatesDuration = None\<rparr> \<rparr>"

definition emptyService :: Service where
  "emptyService =
     \<lparr> Labels = [], Annotations = [], ServiceType = [], Selector = [], Ports = [],
       Owner = None \<rparr>"

definition builderFor :: "ClusterSpec \<Rightarrow> FrontendServiceBuilder" where
  "builderFor spec =
     \<lparr> instanceName = ''prod'', builderInstance = spec,
       GetLabels = [(''app.kubernetes.io/name'', ''prod'')],
       GetAnnotations = [],
       LabelsSelector = [(''app.kubernetes.io/component'', ''frontend'')],
       SetControllerReference_result = None \<rparr>"

section \<open>Set and kept fields of a cluster spec\<close>

text \<open>
  The two properties asked of \<^verbatim>\<open>reconcileDefaults\<close>, as predicates. \<open>defaultsSet\<close>
  holds of a spec in which every optional field the function governs is set, the
  visibility store apart (it is \<open>visibilityStoreSet\<close>); the mutual-TLS durations count
  only when mutual TLS with the certificate manager is enabled. \<open>keepsSpec a b\<close> holds
  when every field that is set in \<open>a\<close> has the same value in \<open>b\<close>.
\<close>

definition serviceSet :: "ServiceSpec option \<Rightarrow> bool" where
  "serviceSet svc =
     (case svc of
        None \<Rightarrow> False
      | Some s \<Rightarrow> Replicas s \<noteq> None \<and> Port s \<noteq> None \<and> MembershipPort s \<noteq> None)"

definition datastoreSet :: "DatastoreSpec \<Rightarrow> bool" where
  "datastoreSet d = (case SQL d of None \<Rightarrow> True | Some sql \<Rightarrow> ConnectProtocol sql \<noteq> [])"

definition mtlsSet :: "MTLSSpec \<Rightarrow> bool" where
  "mtlsSet m =
     (RefreshInterval m \<noteq> None
      \<and> (case CertificatesDuration m of
            None \<Rightarrow> False
          | Some d \<Rightarrow>
              RootCACertificate d \<noteq> None \<and> IntermediateCAsCertificates d \<noteq> None
              \<and> ClientCertificates d \<noteq> None \<and> FrontendCertificate d \<noteq> None
              \<and> InternodeCertificate d \<noteq> None))"

definition defaultsSet :: "ClusterSpec \<Rightarrow> bool" where
  "defaultsSet spec =
     (Version spec \<noteq> [] \<and> Image spec \<noteq> []
      \<and> (case Services spec of
            None \<Rightarrow> False
          | Some sv \<Rightarrow>
              serviceSet (Frontend sv) \<and> serviceSet (History sv)
              \<and> serviceSet (Matching sv) \<and> serviceSet (Worker sv))
      \<and> list_all datastoreSet (Datastores spec)
      \<and> (case UI spec of None \<Rightarrow> False | Some u \<Rightarrow> UIVersion u \<noteq> [] \<and> UIImage u \<noteq> [])
      \<and> (case AdminTools spec of None \<Rightarrow> False | Some a \<Rightarrow> AdminToolsImage a \<noteq> [])
      \<and> (case MTLS spec of
            None \<Rightarrow> True
          | Some m \<Rightarrow> if Provider m = CertManagerMTLSProvider then mtlsSet m else True))"

definition visibilityStoreSet :: "ClusterSpec \<Rightarrow> bool" where
  "visibilityStoreSet spec = (VisibilityStore (Persistence spec) \<noteq> [])"

definition orDefault :: "'a \<Rightarrow> 'a option \<Rightarrow> 'a option" where
  "orDefault v x = (case x of None \<Rightarrow> Some v | Some y \<Rightarrow> Some y)"

definition keepsString :: "string \<Rightarrow> string \<Rightarrow> bool" where
  "keepsString a b = (if a = [] then True else b = a)"

definition keepsOption :: "'a option \<Rightarrow> 'a option \<Rightarrow> bool" where
  "keepsOption a b = (case a of None \<Rightarrow> True | Some x \<Rightarrow> b = Some x)"

definition keepsService :: "ServiceSpec option \<Rightarrow> ServiceSpec option \<Rightarrow> bool" where
  "keepsService a b =
     (case a of
        None \<Rightarrow> True
      | Some x \<Rightarrow>
          (case b of
             None \<Rightarrow> False
           | Some y \<Rightarrow>
               keepsOption (Replicas x) (Replicas y) \<and> keepsOption (Port x) (Port y)
               \<and> keepsOption (MembershipPort x) (MembershipPort y)
               \<and> HTTPPort y = HTTPPort x))"

definition keepsDatastore :: "DatastoreSpec \<Rightarrow> DatastoreSpec \<Rightarrow> bool" where
  "keepsDatastore a b =
     (DatastoreName b = DatastoreName a
      \<and> (case SQL a of
            None \<Rightarrow> SQL b = None
          | Some x \<Rightarrow>
              (case SQL b of
                 None \<Rightarrow> False
               | Some y \<Rightarrow>
                   ConnectAddr y = ConnectAddr x
                   \<and> keepsString (ConnectProtocol x) (ConnectProtocol y))))"

definition keepsCertificatesDuration ::
  "CertificatesDurationSpec option \<Rightarrow> CertificatesDurationSpec option \<Rightarrow> bool" where
  "keepsCertificatesDuration a b =
     (case a of
        None \<Rightarrow> True
      | Some x \<Rightarrow>
          (case b of
             None \<Rightarrow> False
           | Some y \<Rightarrow>
               keepsOption (RootCACertificate x) (RootCACertificate y)
               \<and> keepsOption (IntermediateCAsCertificates x) (IntermediateCAsCertificates y)
               \<and> keepsOption (ClientCertificates x) (ClientCertificates y)
               \<and> keepsOption (FrontendCertificate x) (FrontendCertificate y)
               \<and> keepsOption (InternodeCertificate x) (InternodeCertificate y)))"

definition keepsSpec :: "ClusterSpec \<Rightarrow> ClusterSpec \<Rightarrow> bool" where
  "keepsSpec a b =
     (keepsString (Version a) (Version b) \<and> keepsString (Image a) (Image b)
      \<and> (case Services a of
            None \<Rightarrow> True
          | Some x \<Rightarrow>
              (case Services b of
                 None \<Rightarrow> False
               | Some y \<Rightarrow>
                   keepsService (Frontend x) (Frontend y) \<and> keepsService (History x) (History y)
                   \<and> keepsService (Matching x) (Matching y)
                   \<and> keepsService (Worker x) (Worker y)))
      \<and> list_all2 keepsDatastore (Datastores a) (Datastores b)
      \<and> DefaultStore (Persistence b) = DefaultStore (Persistence a)
      \<and> keepsString (VisibilityStore (Persistence a)) (VisibilityStore (Persistence b))
      \<and> (case UI a of
            None \<Rightarrow> True
          | Some x \<Rightarrow>
              (case UI b of
                 None \<Rightarrow> False
               | Some y \<Rightarrow>
                   keepsString (UIVersion x) (UIVersion y)
                   \<and> keepsString (UIImage x) (UIImage y)))
      \<and> (case AdminTools a of
            None \<Rightarrow> True
          | Some x \<Rightarrow>
              (case AdminTools b of
                 None \<Rightarrow> False
               | Some y \<Rightarrow> keepsString (AdminToolsImage x) (AdminToolsImage y)))
      \<and> (case MTLS a of
            None \<Rightarrow> MTLS b = None
          | Some x \<Rightarrow>
              (case MTLS b of
                 None \<Rightarrow> False
               | Some y \<Rightarrow>
                   Provider y = Provider x
                   \<and> keepsOption (RefreshInterval x) (RefreshInterval y)
                   \<and> keepsCertificatesDuration (CertificatesDuration x)
                        (CertificatesDuration y))))"

section \<open>Properties of the attribute-set reconciler\<close>

subsection \<open>The three loops\<close>

lemma update_fresh: "k \<notin> fst ` set al \<Longrightarrow> AList.update k v al = al @ [(k, v)]"
  by (induction al) auto


lemma specLoop_resolved:
  "list_all2 (\<lambda>(n, ts) (n', t). n' = n \<and> searchAttributeTypeStringToEnum l ts = Inr t) M M'
   \<Longrightarrow> distinct (map fst M) \<Longrightarrow> fst ` set acc \<inter> fst ` set M = {}
   \<Longrightarrow> specLoop l M acc = Inr (acc @ M')"
proof (induction M M' arbitrary: acc rule: list_all2_induct)
  case Nil
  then show ?case by simp
next
  case (Cons x xs y ys)
  obtain n ts where x: "x = (n, ts)" by (cases x)
  obtain n' t where y: "y = (n', t)" by (cases y)
  from Cons.hyps(1) x y have eq: "n' = n" and res: "searchAttributeTypeStringToEnum l ts = Inr t"
    by auto
  from Cons.prems x have fresh: "n \<notin> fst ` set acc" and d: "distinct (map fst xs)"
    and nx: "n \<notin> fst ` set xs" by auto
  have disj: "fst ` set (acc @ [(n, t)]) \<inter> fst ` set xs = {}"
    using Cons.prems x nx by auto
  have "specLoop l xs (acc @ [(n, t)]) = Inr ((acc @ [(n, t)]) @ ys)"
    by (rule Cons.IH [OF d disj])
  then show ?case using x y eq res fresh by (simp add: update_fresh)
qed


lemma specLoop_Inr:
  "specLoop l M acc = Inr S \<Longrightarrow> distinct (map fst M) \<Longrightarrow> fst ` set acc \<inter> fst ` set M = {}
   \<Longrightarrow> \<exists>M'. list_all2 (\<lambda>(n, ts) (n', t). n' = n \<and> searchAttributeTypeStringToEnum l ts = Inr t) M M'
          \<and> S = acc @ M'"
proof (induction M arbitrary: acc)
  case Nil
  then show ?case by simp
next
  case (Cons x xs)
  obtain n ts where x: "x = (n, ts)" by (cases x)
  from Cons.prems(1) x obtain t where res: "searchAttributeTypeStringToEnum l ts = Inr t"
    and rest: "specLoop l xs (AList.update n t acc) = Inr S"
    by (auto split: sum.splits)
  from Cons.prems x have fresh: "n \<notin> fst ` set acc" and d: "distinct (map fst xs)"
    and nx: "n \<notin> fst ` set xs" by auto
  have disj: "fst ` set (acc @ [(n, t)]) \<inter> fst ` set xs = {}"
    using Cons.prems x nx by auto
  from rest fresh have "specLoop l xs (acc @ [(n, t)]) = Inr S" by (simp add: update_fresh)
  from Cons.IH [OF this d disj] obtain M' where
    "list_all2 (\<lambda>(n, ts) (n', t). n' = n \<and> searchAttributeTypeStringToEnum l ts = Inr t) xs M'"
    and "S = (acc @ [(n, t)]) @ M'" by blast
  then have "list_all2 (\<lambda>(n, ts) (n', t). n' = n \<and> searchAttributeTypeStringToEnum l ts = Inr t)
               (x # xs) ((n, t) # M') \<and> S = acc @ ((n, t) # M')"
    using x res by simp
  then show ?case by blast
qed


lemma removeLoop_filter:
  "removeLoop spec R acc = acc @ filter (\<lambda>n. map_of spec n = None) (map fst R)"
  by (induction R arbitrary: acc) auto


lemma addLoop_filter:
  "\<forall>(n, t) \<in> set S. \<forall>t'. map_of R n = Some t' \<longrightarrow> t = t'
   \<Longrightarrow> distinct (map fst S) \<Longrightarrow> fst ` set acc \<inter> fst ` set S = {}
   \<Longrightarrow> addLoop l R S acc = Inr (acc @ filter (\<lambda>(n, t). map_of R n = None) S)"
proof (induction S arbitrary: acc)
  case Nil
  then show ?case by simp
next
  case (Cons x xs)
  obtain n t where x: "x = (n, t)" by (cases x)
  from Cons.prems x have fresh: "n \<notin> fst ` set acc" and d: "distinct (map fst xs)"
    and nx: "n \<notin> fst ` set xs"
    and ok: "\<forall>(n, t) \<in> set xs. \<forall>t'. map_of R n = Some t' \<longrightarrow> t = t'"
    and okx: "\<forall>t'. map_of R n = Some t' \<longrightarrow> t = t'" by auto
  show ?case
  proof (cases "map_of R n")
    case None
    have disj: "fst ` set (acc @ [(n, t)]) \<inter> fst ` set xs = {}"
      using Cons.prems x nx by auto
    show ?thesis using Cons.IH [OF ok d disj] None x fresh by (simp add: update_fresh)
  next
    case (Some t')
    have disj: "fst ` set acc \<inter> fst ` set xs = {}" using Cons.prems by auto
    show ?thesis using Cons.IH [OF ok d disj] Some x okx by simp
  qed
qed


lemma addLoop_conflict:
  "(n, t) \<in> set S \<Longrightarrow> map_of R n = Some t' \<Longrightarrow> t \<noteq> t' \<Longrightarrow> \<exists>e. addLoop l R S acc = Inl e"
proof (induction S arbitrary: acc)
  case Nil
  then show ?case by simp
next
  case (Cons x xs)
  obtain m u where x: "x = (m, u)" by (cases x)
  show ?case
  proof (cases "x = (n, t)")
    case True
    with Cons.prems x show ?thesis by simp
  next
    case False
    with Cons.prems have "(n, t) \<in> set xs" by simp
    from Cons.IH [OF this Cons.prems(2,3)] show ?thesis
      using x by (simp split: option.splits)
  qed
qed


lemma fold_removeRequest:
  "fold remoteApply (if rem = [] then [] else [RemoveSearchAttributes ns rem]) m = m |` (- set rem)"
  by (simp add: restrict_map_def fun_eq_iff)


lemma fold_addRequest:
  "fold remoteApply (if add = [] then [] else [AddSearchAttributes ns add]) m = m ++ map_of add"
  by simp


lemma map_of_filter_absent:
  "distinct (map fst M) \<Longrightarrow>
   map_of (filter (\<lambda>(n, t). map_of R n = None) M) = map_of M |` (- fst ` set R)"
proof (rule ext)
  fix x
  assume d: "distinct (map fst M)"
  show "map_of (filter (\<lambda>(n, t). map_of R n = None) M) x = (map_of M |` (- fst ` set R)) x"
  proof (cases "x \<in> fst ` set R")
    case True
    then have "map_of R x \<noteq> None" by (simp add: map_of_eq_None_iff)
    then have "x \<notin> fst ` set (filter (\<lambda>(n, t). map_of R n = None) M)" by auto
    then have "map_of (filter (\<lambda>(n, t). map_of R n = None) M) x = None"
      by (simp add: map_of_eq_None_iff)
    with True show ?thesis by simp
  next
    case False
    then have n: "map_of R x = None" by (simp add: map_of_eq_None_iff)
    have "map_of (filter (\<lambda>(n, t). map_of R n = None) M) x = map_of M x"
      using n by (induction M) auto
    with False show ?thesis by simp
  qed
qed


lemma resolve_Keyword:
  "searchAttributeTypeStringToEnum temporalLib ''Keyword'' = Inr INDEXED_VALUE_TYPE_KEYWORD"
  by code_simp


lemma resolve_Int:
  "searchAttributeTypeStringToEnum temporalLib ''Int'' = Inr INDEXED_VALUE_TYPE_INT"
  by code_simp


lemma runA: "reconcileCustomSearchAttributes temporalLib worldA namespaceA =
     (None, [GetClient ClusterClient True, ListSearchAttributes ''orders'',
             RemoveSearchAttributes ''orders'' [''Legacy''],
             AddSearchAttributes ''orders'' [(''Amount'', INDEXED_VALUE_TYPE_INT)]])"
  by code_simp


lemma runB: "reconcileCustomSearchAttributes temporalLib worldB namespaceB =
     (Some (Error OtherError
              ''search attribute Amount already exists and has different type Text''),
      [GetClient ClusterClient True, ListSearchAttributes ''orders''])"
  by code_simp


subsection \<open>Convergence\<close>

text \<open>
  Claim C1. Let the spec's mapping have distinct names and let every type string resolve,
  giving the typed mapping \<open>M\<close>; let the remote answer the list request with \<open>R\<close>
  (distinct names), and let every name in both have the same type. If the run succeeds,
  its trace is the client construction and the list request, followed by one removal
  request for exactly the names of \<open>R\<close> that are not in \<open>M\<close> (no request when there
  are none) and one addition request for exactly the pairs of \<open>M\<close> whose name is not
  in \<open>R\<close> (no request when there are none). Applied to \<open>R\<close> by the remote, the trace
  yields the mapping \<open>M\<close>.
\<close>

theorem reconcileCustomSearchAttributes_converges:
  assumes dM: "distinct (map fst (CustomSearchAttributes namespace))"
    and dR: "distinct (map fst R)"
    and res: "list_all2 (\<lambda>(n, ts) (n', t). n' = n \<and> searchAttributeTypeStringToEnum l ts = Inr t)
                (CustomSearchAttributes namespace) M"
    and lst: "ListSearchAttributes_result w = Inr R"
    and noconf: "\<forall>n t t'. map_of M n = Some t \<longrightarrow> map_of R n = Some t' \<longrightarrow> t = t'"
    and ok: "reconcileCustomSearchAttributes l w namespace = (None, tr)"
  shows "\<exists>rem add.
           tr = [GetClient ClusterClient True, ListSearchAttributes (Name namespace)]
                  @ (if rem = [] then [] else [RemoveSearchAttributes (Name namespace) rem])
                  @ (if add = [] then [] else [AddSearchAttributes (Name namespace) add])
           \<and> distinct rem \<and> set rem = fst ` set R - fst ` set M
           \<and> distinct (map fst add) \<and> set add = {(n, t). (n, t) \<in> set M \<and> n \<notin> fst ` set R}
           \<and> fold remoteApply tr (map_of R) = map_of M"
proof -
  let ?ns = "Name namespace"
  let ?rem = "filter (\<lambda>n. map_of M n = None) (map fst R)"
  let ?add = "filter (\<lambda>(n, t). map_of R n = None) M"
  let ?tr0 = "[GetClient ClusterClient True, ListSearchAttributes ?ns]"
  have keys: "map fst M = map fst (CustomSearchAttributes namespace)"
    using res by (induction rule: list_all2_induct) auto
  have dM': "distinct (map fst M)" using dM keys by simp
  have spec: "specLoop l (CustomSearchAttributes namespace) [] = Inr M"
    using specLoop_resolved [OF res dM, of "[]"] by simp
  have entries: "\<forall>(n, t) \<in> set M. \<forall>t'. map_of R n = Some t' \<longrightarrow> t = t'"
    using noconf dM' by (auto dest: map_of_is_SomeI)
  have add: "addLoop l R M [] = Inr ?add"
    using addLoop_filter [OF entries dM', of "[]" l] by simp
  have rem: "removeLoop M R [] = ?rem" by (simp add: removeLoop_filter)
  have cl: "GetClusterClient_result w = None"
    using ok by (auto simp: reconcileCustomSearchAttributes_def split: option.splits)
  have rr: "RemoveSearchAttributes_result w = None" if "?rem \<noteq> []"
    using ok that cl lst spec add rem
    by (auto simp: reconcileCustomSearchAttributes_def removeRequest_def Let_def
             split: option.splits if_splits)
  have ar: "AddSearchAttributes_result w = None" if "?add \<noteq> []"
    using ok that cl lst spec add rem
    by (auto simp: reconcileCustomSearchAttributes_def removeRequest_def addRequest_def Let_def
             split: option.splits if_splits)
  have tr: "tr = ?tr0 @ (if ?rem = [] then [] else [RemoveSearchAttributes ?ns ?rem])
                 @ (if ?add = [] then [] else [AddSearchAttributes ?ns ?add])"
    using ok cl lst spec add rem rr ar
    by (auto simp: reconcileCustomSearchAttributes_def removeRequest_def addRequest_def Let_def
             split: option.splits if_splits)
  have srem: "set ?rem = fst ` set R - fst ` set M"
    by (auto simp: map_of_eq_None_iff)
  have sadd: "set ?add = {(n, t). (n, t) \<in> set M \<and> n \<notin> fst ` set R}"
    by (auto simp: map_of_eq_None_iff)
  have drem: "distinct ?rem" using dR by simp
  have dadd: "distinct (map fst ?add)" using dM' by (simp add: distinct_map_filter)
  have "fold remoteApply tr (map_of R) = (map_of R |` (- set ?rem)) ++ map_of ?add"
    unfolding tr fold_append comp_def fold_removeRequest fold_addRequest by simp
  also have "\<dots> = map_of M"
  proof (rule ext)
    fix x
    show "((map_of R |` (- set ?rem)) ++ map_of ?add) x = map_of M x"
    proof (cases "map_of M x")
      case None
      then have "x \<notin> fst ` set M" by (simp add: map_of_eq_None_iff)
      then have a: "map_of ?add x = None" by (auto simp: map_of_eq_None_iff)
      have "(map_of R |` (- set ?rem)) x = None"
        using None by (cases "map_of R x") (auto simp: restrict_map_def dest: map_of_SomeD intro: rev_image_eqI)
      with a None show ?thesis by (simp add: map_add_def)
    next
      case (Some t)
      show ?thesis
      proof (cases "map_of R x")
        case None
        then have "x \<notin> fst ` set R" by (simp add: map_of_eq_None_iff)
        moreover have "map_of ?add x = (map_of M |` (- fst ` set R)) x"
          by (rule fun_cong [OF map_of_filter_absent [OF dM']])
        ultimately have "map_of ?add x = Some t"
          using Some by simp
        then show ?thesis using Some by (simp add: map_add_def)
      next
        case (Some t')
        with \<open>map_of M x = Some t\<close> noconf have "t = t'" by blast
        have "x \<in> fst ` set R" using Some by (metis map_of_eq_None_iff option.distinct(1))
        moreover have "map_of ?add x = (map_of M |` (- fst ` set R)) x"
          by (rule fun_cong [OF map_of_filter_absent [OF dM']])
        ultimately have a: "map_of ?add x = None" by simp
        have "x \<notin> set ?rem" using \<open>map_of M x = Some t\<close> by simp
        then have "(map_of R |` (- set ?rem)) x = Some t'" using Some by simp
        with a \<open>t = t'\<close> \<open>map_of M x = Some t\<close> show ?thesis by (simp add: map_add_def)
      qed
    qed
  qed
  finally have conv: "fold remoteApply tr (map_of R) = map_of M" .
  show ?thesis
    apply (rule exI [of _ ?rem], rule exI [of _ ?add])
    using tr drem srem dadd sadd conv by blast
qed


theorem reconcileCustomSearchAttributes_converges_witness:
  "distinct (map fst (CustomSearchAttributes namespaceA))
   \<and> distinct (map fst remoteA)
   \<and> list_all2 (\<lambda>(n, ts) (n', t). n' = n \<and> searchAttributeTypeStringToEnum temporalLib ts = Inr t)
        (CustomSearchAttributes namespaceA)
        [(''CustomerId'', INDEXED_VALUE_TYPE_KEYWORD), (''Amount'', INDEXED_VALUE_TYPE_INT)]
   \<and> ListSearchAttributes_result worldA = Inr remoteA
   \<and> reconcileCustomSearchAttributes temporalLib worldA namespaceA =
       (None, [GetClient ClusterClient True, ListSearchAttributes ''orders'',
               RemoveSearchAttributes ''orders'' [''Legacy''],
               AddSearchAttributes ''orders'' [(''Amount'', INDEXED_VALUE_TYPE_INT)]])
   \<and> fold remoteApply
         [GetClient ClusterClient True, ListSearchAttributes ''orders'',
          RemoveSearchAttributes ''orders'' [''Legacy''],
          AddSearchAttributes ''orders'' [(''Amount'', INDEXED_VALUE_TYPE_INT)]]
         (map_of remoteA)
       = map_of [(''CustomerId'', INDEXED_VALUE_TYPE_KEYWORD), (''Amount'', INDEXED_VALUE_TYPE_INT)]"
proof -
  let ?M = "[(''CustomerId'', INDEXED_VALUE_TYPE_KEYWORD), (''Amount'', INDEXED_VALUE_TYPE_INT)]"
  have h1: "distinct (map fst (CustomSearchAttributes namespaceA))"
    by (simp add: namespaceA_def)
  have h2: "distinct (map fst remoteA)" by (simp add: remoteA_def)
  have h3: "list_all2 (\<lambda>(n, ts) (n', t). n' = n \<and> searchAttributeTypeStringToEnum temporalLib ts = Inr t)
              (CustomSearchAttributes namespaceA) ?M"
    by (simp add: namespaceA_def resolve_Keyword resolve_Int)
  have h4: "ListSearchAttributes_result worldA = Inr remoteA" by (simp add: worldA_def)
  have h5: "\<forall>n t t'. map_of ?M n = Some t \<longrightarrow> map_of remoteA n = Some t' \<longrightarrow> t = t'"
    by (simp add: remoteA_def)
  note h6 = runA
  from reconcileCustomSearchAttributes_converges [OF h1 h2 h3 h4 h5 h6]
  have "fold remoteApply
         [GetClient ClusterClient True, ListSearchAttributes ''orders'',
          RemoveSearchAttributes ''orders'' [''Legacy''],
          AddSearchAttributes ''orders'' [(''Amount'', INDEXED_VALUE_TYPE_INT)]]
         (map_of remoteA) = map_of ?M" by blast
  with h1 h2 h3 h4 h6 show ?thesis by blast
qed


subsection \<open>Conflict safety\<close>

text \<open>
  Claim C2. If a name of the spec's mapping is also in the remote mapping \<open>R\<close> and its
  type string does not resolve to the remote type, the run returns an error and its
  trace holds no removal and no addition request: it is the failed client construction
  alone, or the client construction and the list request.
\<close>

theorem reconcileCustomSearchAttributes_conflict:
  assumes dM: "distinct (map fst (CustomSearchAttributes namespace))"
    and lst: "ListSearchAttributes_result w = Inr R"
    and inM: "(n, ts) \<in> set (CustomSearchAttributes namespace)"
    and inR: "map_of R n = Some t'"
    and differ: "searchAttributeTypeStringToEnum l ts \<noteq> Inr t'"
  shows "(\<exists>e. fst (reconcileCustomSearchAttributes l w namespace) = Some e)
         \<and> (snd (reconcileCustomSearchAttributes l w namespace) = [GetClient ClusterClient False]
            \<or> snd (reconcileCustomSearchAttributes l w namespace)
                = [GetClient ClusterClient True, ListSearchAttributes (Name namespace)])"
proof (cases "GetClusterClient_result w")
  case (Some e)
  then show ?thesis by (simp add: reconcileCustomSearchAttributes_def)
next
  case None
  show ?thesis
  proof (cases "specLoop l (CustomSearchAttributes namespace) []")
    case (Inl e)
    with None lst show ?thesis by (simp add: reconcileCustomSearchAttributes_def)
  next
    case (Inr S)
    from specLoop_Inr [OF Inr dM] obtain M' where
      all: "list_all2 (\<lambda>(n, ts) (n', t). n' = n \<and> searchAttributeTypeStringToEnum l ts = Inr t)
              (CustomSearchAttributes namespace) M'" and S: "S = M'" by auto
    from inM obtain i where i: "i < length (CustomSearchAttributes namespace)"
      and at: "CustomSearchAttributes namespace ! i = (n, ts)" by (auto simp: in_set_conv_nth)
    from all i have len: "i < length M'" by (simp add: list_all2_lengthD)
    obtain n' t where Mi: "M' ! i = (n', t)" by (cases "M' ! i")
    from list_all2_nthD [OF all i] at Mi
    have "n' = n" and res: "searchAttributeTypeStringToEnum l ts = Inr t" by auto
    with differ have ne: "t \<noteq> t'" by auto
    have "(n, t) \<in> set S" using len Mi \<open>n' = n\<close> S by (auto simp: in_set_conv_nth)
    from addLoop_conflict [OF this inR ne] obtain e where "addLoop l R S [] = Inl e" by blast
    with None lst Inr show ?thesis by (simp add: reconcileCustomSearchAttributes_def)
  qed
qed


theorem reconcileCustomSearchAttributes_conflict_witness:
  "distinct (map fst (CustomSearchAttributes namespaceB))
   \<and> ListSearchAttributes_result worldB = Inr remoteB
   \<and> (''Amount'', ''Int'') \<in> set (CustomSearchAttributes namespaceB)
   \<and> map_of remoteB ''Amount'' = Some INDEXED_VALUE_TYPE_TEXT
   \<and> searchAttributeTypeStringToEnum temporalLib ''Int'' \<noteq> Inr INDEXED_VALUE_TYPE_TEXT
   \<and> (\<exists>e. fst (reconcileCustomSearchAttributes temporalLib worldB namespaceB) = Some e)
   \<and> snd (reconcileCustomSearchAttributes temporalLib worldB namespaceB)
       = [GetClient ClusterClient True, ListSearchAttributes ''orders'']"
proof -
  have h1: "distinct (map fst (CustomSearchAttributes namespaceB))"
    by (simp add: namespaceB_def namespaceA_def)
  have h2: "ListSearchAttributes_result worldB = Inr remoteB"
    by (simp add: worldB_def)
  have h3: "(''Amount'', ''Int'') \<in> set (CustomSearchAttributes namespaceB)"
    by (simp add: namespaceB_def namespaceA_def)
  have h4: "map_of remoteB ''Amount'' = Some INDEXED_VALUE_TYPE_TEXT"
    by (simp add: remoteB_def)
  have h5: "searchAttributeTypeStringToEnum temporalLib ''Int'' \<noteq> Inr INDEXED_VALUE_TYPE_TEXT"
    by (simp add: resolve_Int)
  have tr: "snd (reconcileCustomSearchAttributes temporalLib worldB namespaceB)
              = [GetClient ClusterClient True, ListSearchAttributes ''orders'']"
    by (simp add: runB)
  from reconcileCustomSearchAttributes_conflict [OF h1 h2 h3 h4 h5]
  have "\<exists>e. fst (reconcileCustomSearchAttributes temporalLib worldB namespaceB) = Some e"
    by blast
  with h1 h2 h3 h4 h5 tr show ?thesis by blast
qed


section \<open>Properties of the namespace reconciler\<close>

subsection \<open>Projections of a pass\<close>

lemma calls_deferPatch [simp]: "calls (deferPatch w tr out) = tr"
  by (cases out) (simp add: deferPatch_def)


lemma patched_deferPatch [simp]: "patched (deferPatch w tr out) = Some (fst out)"
  by (cases out) (simp add: deferPatch_def)


lemma result_deferPatch [simp]: "result (deferPatch w tr out) = fst (snd out)"
  by (cases out) (simp add: deferPatch_def)


lemma reterr_deferPatch [simp]:
  "reterr (deferPatch w tr out) =
     (case Patch_result w of
        None \<Rightarrow> (case snd (snd out) of None \<Rightarrow> NilErr | Some x \<Rightarrow> Plain x)
      | Some perr \<Rightarrow>
          Aggregate ((case snd (snd out) of None \<Rightarrow> [] | Some x \<Rightarrow> [x]) @ [perr]))"
  by (cases out) (simp add: deferPatch_def split: option.splits)


lemma Name_ensureFinalizer [simp]: "Name (ensureFinalizer n) = Name n"
  by (simp add: ensureFinalizer_def AddFinalizer_def)


lemma handleError_eq:
  "handleError n ReconcileErrorReason e =
     (SetTemporalNamespaceReconcileError n ConditionTrue ReconcileErrorReason (Error_string e),
      emptyResult, None)"
  by (simp add: handleError_def handleErrorWithRequeue_def emptyResult_def)


lemma handleSuccess_eq:
  "handleSuccess n =
     (SetTemporalNamespaceReconcileSuccess n ConditionTrue ReconcileSuccessReason [],
      emptyResult, None)"
  by (simp add: handleSuccess_def handleSuccessWithRequeue_def emptyResult_def)


lemma Finalizers_setCondition [simp]:
  "Finalizers (setCondition ty st r m n) = Finalizers n"
  by (simp add: setCondition_def)


lemma Finalizers_handleError [simp]:
  "Finalizers (fst (handleError n r e)) = Finalizers n"
  by (simp add: handleError_def handleErrorWithRequeue_def SetTemporalNamespaceReconcileError_def)


lemma Finalizers_handleSuccess [simp]:
  "Finalizers (fst (handleSuccess n)) = Finalizers n"
  by (simp add: handleSuccess_def handleSuccessWithRequeue_def
        SetTemporalNamespaceReconcileSuccess_def)


lemma Finalizers_SetReady [simp]:
  "Finalizers (SetTemporalNamespaceReady n st r m) = Finalizers n"
  by (simp add: SetTemporalNamespaceReady_def)


lemma ensureFinalizer_contains:
  "ContainsFinalizer (ensureFinalizer n) deletionFinalizer \<longleftrightarrow>
     ContainsFinalizer n deletionFinalizer \<or> (AllowDeletion n \<and> IsZero (DeletionTimestamp n))"
  by (auto simp: ensureFinalizer_def ContainsFinalizer_def AddFinalizer_def)


lemma RemoveFinalizer_contains [simp]:
  "\<not> ContainsFinalizer (RemoveFinalizer n f) f"
  by (simp add: ContainsFinalizer_def RemoveFinalizer_def)


lemma ensureNamespaceDeleted_finalizer:
  "ensureNamespaceDeleted w n c = (e, n', tr) \<Longrightarrow>
     (ContainsFinalizer n' deletionFinalizer \<longleftrightarrow>
        ContainsFinalizer n deletionFinalizer
        \<and> \<not> (GetClusterClient_result w = None
              \<and> (DeleteNamespace_result w = None
                  \<or> (\<exists>x. DeleteNamespace_result w = Some x \<and> kind x = NamespaceNotFound))))
     \<and> (ContainsFinalizer n deletionFinalizer \<and> GetClusterClient_result w = None
          \<longrightarrow> DeleteNamespace (Name n) \<in> set tr)"
  by (auto simp: ensureNamespaceDeleted_def Let_def split: if_splits option.splits)


lemma patched_finalizer:
  assumes ns: "Get_namespace w = Inr n"
    and helper: "NewHelper_result w = None"
    and out: "patched (Reconcile l w) = Some n'"
  shows "ContainsFinalizer n' deletionFinalizer \<longleftrightarrow>
     (case Get_cluster w of
        Inl e \<Rightarrow>
          if IsNotFound e \<and> \<not> IsZero (DeletionTimestamp n) then False
          else ContainsFinalizer n deletionFinalizer
      | Inr c \<Rightarrow>
          if \<not> IsReady c then ContainsFinalizer n deletionFinalizer
          else if \<not> IsZero (DeletionTimestamp n)
          then ContainsFinalizer n deletionFinalizer
               \<and> \<not> (GetClusterClient_result w = None
                     \<and> (DeleteNamespace_result w = None
                         \<or> (\<exists>x. DeleteNamespace_result w = Some x
                                  \<and> kind x = NamespaceNotFound)))
          else ContainsFinalizer n deletionFinalizer \<or> AllowDeletion n)"
proof -
  have cf: "ContainsFinalizer (fst (handleError m r e)) f = ContainsFinalizer m f" for m r e f
    by (simp add: ContainsFinalizer_def)
  have cs: "ContainsFinalizer (fst (handleSuccess (SetTemporalNamespaceReady m st r x))) f
              = ContainsFinalizer m f" for m st r x f
    by (simp add: ContainsFinalizer_def)
  show ?thesis
    using ns helper out
    by (auto simp: Reconcile_def Let_def cf cs ensureFinalizer_contains
             split: sum.splits option.splits if_splits prod.splits
             dest: ensureNamespaceDeleted_finalizer)
qed


lemma deletion_calls:
  assumes ns: "Get_namespace w = Inr n"
    and helper: "NewHelper_result w = None"
  shows "(\<exists>e. Get_cluster w = Inl e) \<longrightarrow> calls (Reconcile l w) = []"
    and "(\<exists>c. Get_cluster w = Inr c \<and> IsReady c) \<and> \<not> IsZero (DeletionTimestamp n)
         \<and> ContainsFinalizer n deletionFinalizer \<and> GetClusterClient_result w = None
         \<longrightarrow> DeleteNamespace (Name n) \<in> set (calls (Reconcile l w))"
  using ns helper
  by (auto simp: Reconcile_def Let_def
           split: sum.splits option.splits prod.splits
           dest: ensureNamespaceDeleted_finalizer)


lemma map_of_setCondition:
  "map_of (Conditions (setCondition ty st r m n)) ty' =
     (if ty' = ty then Some \<lparr>Status = st, Reason = r, Message = m\<rparr>
      else map_of (Conditions n) ty')"
  by (simp add: setCondition_def update_conv')


lemma Conditions_RemoveFinalizer [simp]:
  "Conditions (RemoveFinalizer n f) = Conditions n"
  by (simp add: RemoveFinalizer_def)


lemma Conditions_ensureFinalizer [simp]:
  "Conditions (ensureFinalizer n) = Conditions n"
  by (simp add: ensureFinalizer_def AddFinalizer_def)


lemma Conditions_ensureNamespaceDeleted:
  "ensureNamespaceDeleted w n c = (e, n', tr) \<Longrightarrow> Conditions n' = Conditions n"
  by (auto simp: ensureNamespaceDeleted_def Let_def split: if_splits option.splits)


lemma runtimeRequeue_empty [simp]: "runtimeRequeue emptyResult NilErr = Forget"
  by (simp add: runtimeRequeue_def emptyResult_def)


lemma Conditions_SetReady_Success:
  "map_of (Conditions (SetTemporalNamespaceReconcileSuccess
                         (SetTemporalNamespaceReady n st r m) st' r' m'))
     ReconcileErrorCondition = map_of (Conditions n) ReconcileErrorCondition"
  by (simp add: SetTemporalNamespaceReconcileSuccess_def SetTemporalNamespaceReady_def
        map_of_setCondition)


lemma Conditions_SetError:
  "map_of (Conditions (SetTemporalNamespaceReconcileError n st r m)) ReconcileErrorCondition
     = Some \<lparr>Status = st, Reason = r, Message = m\<rparr>"
  by (simp add: SetTemporalNamespaceReconcileError_def map_of_setCondition)


subsection \<open>The concrete passes, evaluated\<close>

lemma IsReady_readyCluster: "IsReady readyCluster"
  by (simp add: IsReady_def readyCluster_def)


lemma IsReady_notReadyCluster: "\<not> IsReady notReadyCluster"
  by (simp add: IsReady_def notReadyCluster_def)


lemma passA:
  "calls (Reconcile temporalLib worldA) =
     [GetClient NamespaceClient True, Register ''orders'',
      GetClient ClusterClient True, ListSearchAttributes ''orders'',
      RemoveSearchAttributes ''orders'' [''Legacy''],
      AddSearchAttributes ''orders'' [(''Amount'', INDEXED_VALUE_TYPE_INT)],
      Close NamespaceClient]"
  by code_simp


lemma passDeleting:
  "patched (Reconcile temporalLib worldDeleting) = Some (namespaceDeleting\<lparr>Finalizers := []\<rparr>)
   \<and> calls (Reconcile temporalLib worldDeleting)
       = [GetClient ClusterClient True, DeleteNamespace ''orders'', Close ClusterClient]"
  by code_simp


lemma passDeletingNotFound:
  "patched (Reconcile temporalLib worldDeletingNotFound)
     = Some (namespaceDeleting\<lparr>Finalizers := []\<rparr>)
   \<and> calls (Reconcile temporalLib worldDeletingNotFound)
       = [GetClient ClusterClient True, DeleteNamespace ''orders'', Close ClusterClient]"
  by code_simp


lemma passRevoked: "patched (Reconcile temporalLib worldRevoked) \<noteq> None"
  by code_simp


lemma passRegisterFails:
  "patched (Reconcile temporalLib worldRegisterFails)
     = Some (namespaceA\<lparr>Conditions :=
               [(ReconcileErrorCondition,
                 \<lparr>Status = ConditionTrue, Reason = ReconcileErrorReason,
                  Message = ''can't create '' @ [CHR 0x22] @ ''orders'' @ [CHR 0x22]
                            @ '' namespace: connection refused''\<rparr>)]\<rparr>)"
  by code_simp


lemma passError_RegisterFails:
  "passError temporalLib worldRegisterFails namespaceA
     = Some (Error OtherError (''can't create '' @ [CHR 0x22] @ ''orders'' @ [CHR 0x22]
                                 @ '' namespace: connection refused''))"
  by code_simp


lemma worldExists_registered: "worldExists\<lparr>Register_result := None\<rparr> = worldA"
  by (simp add: worldExists_def worldA_def)


subsection \<open>Dependency gating\<close>

text \<open>
  Claim C3. When the lookup of the referenced cluster fails (the cluster is absent, which
  includes the finalizer-drop path of an object under deletion) or returns a cluster
  that is not ready, the pass makes no client call at all: no client is constructed and
  no register, update, delete, list, add or remove request is sent.
\<close>

theorem Reconcile_dependency_gating:
  assumes "case Get_cluster w of Inl err \<Rightarrow> True | Inr cluster \<Rightarrow> \<not> IsReady cluster"
  shows "calls (Reconcile l w) = []"
  using assms
  by (auto simp: Reconcile_def split: sum.splits option.splits)


theorem Reconcile_dependency_gating_witness:
  "Get_cluster worldNotReady = Inr notReadyCluster \<and> \<not> IsReady notReadyCluster
   \<and> calls (Reconcile temporalLib worldNotReady) = []"
proof -
  have h: "case Get_cluster worldNotReady of Inl err \<Rightarrow> True | Inr cluster \<Rightarrow> \<not> IsReady cluster"
    by (simp add: worldNotReady_def IsReady_notReadyCluster)
  have "Get_cluster worldNotReady = Inr notReadyCluster" by (simp add: worldNotReady_def)
  with Reconcile_dependency_gating [OF h, of temporalLib] IsReady_notReadyCluster
  show ?thesis by simp
qed


subsection \<open>The finalizer\<close>

text \<open>
  Claim C4 says that the finalizer is removed only after the remote deletion succeeded
  or the remote reported not-found. The pass of a namespace under deletion whose cluster
  is gone from the store removes the finalizer and makes no client call.
\<close>

theorem finalizer_dropped_without_remote_deletion:
  "ContainsFinalizer namespaceDeleting deletionFinalizer
   \<and> AllowDeletion namespaceDeleting
   \<and> patched (Reconcile temporalLib worldClusterGone)
       = Some (namespaceDeleting\<lparr>Finalizers := []\<rparr>)
   \<and> calls (Reconcile temporalLib worldClusterGone) = []"
  by code_simp


text \<open>
  Claim C4, amended. \<^verbatim>\<open>ensureFinalizer\<close> leaves the object with the finalizer exactly
  when it had it already or deletion is allowed and no deletion timestamp is set. Over
  every pass that patches the object:
  \<^item> the finalizer is added if and only if the object lacked it, deletion is allowed, no
    deletion timestamp is set and the cluster was found ready;
  \<^item> the finalizer is removed if and only if the object had it, is under deletion, and
    either the cluster was not found (the finalizer-drop path, which makes no client
    call), or the cluster was found ready, the cluster client was obtained and the
    remote answered the delete request with success or with not-found (the delete
    request is then in the trace);
  \<^item> a live object that has the finalizer keeps it, whether or not deletion is still
    allowed;
  \<^item> so after the pass the finalizer is present if and only if it was present before or
    deletion is allowed on a live object whose cluster is ready, and the deletion has
    not completed in one of the two ways above.
\<close>

theorem finalizer_lifecycle:
  assumes ns: "Get_namespace w = Inr n"
    and helper: "NewHelper_result w = None"
    and out: "patched (Reconcile l w) = Some n'"
  shows "(ContainsFinalizer (ensureFinalizer n) deletionFinalizer \<longleftrightarrow>
            ContainsFinalizer n deletionFinalizer
            \<or> (AllowDeletion n \<and> IsZero (DeletionTimestamp n)))
       \<and> (\<not> ContainsFinalizer n deletionFinalizer \<and> ContainsFinalizer n' deletionFinalizer \<longleftrightarrow>
            \<not> ContainsFinalizer n deletionFinalizer
            \<and> AllowDeletion n \<and> IsZero (DeletionTimestamp n)
            \<and> (\<exists>c. Get_cluster w = Inr c \<and> IsReady c))
       \<and> (ContainsFinalizer n deletionFinalizer \<and> \<not> ContainsFinalizer n' deletionFinalizer \<longleftrightarrow>
            ContainsFinalizer n deletionFinalizer \<and> \<not> IsZero (DeletionTimestamp n)
            \<and> ((\<exists>e. Get_cluster w = Inl e \<and> IsNotFound e)
               \<or> ((\<exists>c. Get_cluster w = Inr c \<and> IsReady c)
                  \<and> GetClusterClient_result w = None
                  \<and> (DeleteNamespace_result w = None
                     \<or> (\<exists>e. DeleteNamespace_result w = Some e \<and> kind e = NamespaceNotFound)))))
       \<and> (ContainsFinalizer n deletionFinalizer \<and> \<not> ContainsFinalizer n' deletionFinalizer \<longrightarrow>
            ((\<exists>e. Get_cluster w = Inl e \<and> IsNotFound e) \<and> calls (Reconcile l w) = [])
            \<or> DeleteNamespace (Name n) \<in> set (calls (Reconcile l w)))
       \<and> (ContainsFinalizer n deletionFinalizer \<and> IsZero (DeletionTimestamp n) \<longrightarrow>
            ContainsFinalizer n' deletionFinalizer)
       \<and> (ContainsFinalizer n' deletionFinalizer \<longleftrightarrow>
            (ContainsFinalizer n deletionFinalizer
             \<or> (AllowDeletion n \<and> IsZero (DeletionTimestamp n)
                \<and> (\<exists>c. Get_cluster w = Inr c \<and> IsReady c)))
            \<and> \<not> (\<not> IsZero (DeletionTimestamp n)
                  \<and> ((\<exists>e. Get_cluster w = Inl e \<and> IsNotFound e)
                     \<or> ((\<exists>c. Get_cluster w = Inr c \<and> IsReady c)
                        \<and> GetClusterClient_result w = None
                        \<and> (DeleteNamespace_result w = None
                           \<or> (\<exists>e. DeleteNamespace_result w = Some e
                                    \<and> kind e = NamespaceNotFound))))))"
proof -
  note pf = patched_finalizer [OF ns helper out]
  note dc = deletion_calls [OF ns helper, of l]
  have a: "ContainsFinalizer (ensureFinalizer n) deletionFinalizer \<longleftrightarrow>
            ContainsFinalizer n deletionFinalizer
            \<or> (AllowDeletion n \<and> IsZero (DeletionTimestamp n))"
    by (rule ensureFinalizer_contains)
  have b: "\<not> ContainsFinalizer n deletionFinalizer \<and> ContainsFinalizer n' deletionFinalizer \<longleftrightarrow>
            \<not> ContainsFinalizer n deletionFinalizer
            \<and> AllowDeletion n \<and> IsZero (DeletionTimestamp n)
            \<and> (\<exists>c. Get_cluster w = Inr c \<and> IsReady c)"
    using pf by (cases "Get_cluster w") (auto split: if_splits)
  have c: "ContainsFinalizer n deletionFinalizer \<and> \<not> ContainsFinalizer n' deletionFinalizer \<longleftrightarrow>
            ContainsFinalizer n deletionFinalizer \<and> \<not> IsZero (DeletionTimestamp n)
            \<and> ((\<exists>e. Get_cluster w = Inl e \<and> IsNotFound e)
               \<or> ((\<exists>c. Get_cluster w = Inr c \<and> IsReady c)
                  \<and> GetClusterClient_result w = None
                  \<and> (DeleteNamespace_result w = None
                     \<or> (\<exists>e. DeleteNamespace_result w = Some e \<and> kind e = NamespaceNotFound))))"
    using pf by (cases "Get_cluster w") (auto split: if_splits)
  have d: "ContainsFinalizer n deletionFinalizer \<and> \<not> ContainsFinalizer n' deletionFinalizer \<longrightarrow>
            ((\<exists>e. Get_cluster w = Inl e \<and> IsNotFound e) \<and> calls (Reconcile l w) = [])
            \<or> DeleteNamespace (Name n) \<in> set (calls (Reconcile l w))"
    using c dc by blast
  have e: "ContainsFinalizer n deletionFinalizer \<and> IsZero (DeletionTimestamp n) \<longrightarrow>
            ContainsFinalizer n' deletionFinalizer"
    using c by blast
  have f: "ContainsFinalizer n' deletionFinalizer \<longleftrightarrow>
            (ContainsFinalizer n deletionFinalizer
             \<or> (AllowDeletion n \<and> IsZero (DeletionTimestamp n)
                \<and> (\<exists>c. Get_cluster w = Inr c \<and> IsReady c)))
            \<and> \<not> (\<not> IsZero (DeletionTimestamp n)
                  \<and> ((\<exists>e. Get_cluster w = Inl e \<and> IsNotFound e)
                     \<or> ((\<exists>c. Get_cluster w = Inr c \<and> IsReady c)
                        \<and> GetClusterClient_result w = None
                        \<and> (DeleteNamespace_result w = None
                           \<or> (\<exists>e. DeleteNamespace_result w = Some e
                                    \<and> kind e = NamespaceNotFound)))))"
    using b c by blast
  from a b c d e f show ?thesis by blast
qed


theorem finalizer_lifecycle_witness:
  "Get_namespace worldDeleting = Inr namespaceDeleting
   \<and> NewHelper_result worldDeleting = None
   \<and> patched (Reconcile temporalLib worldDeleting) = Some (namespaceDeleting\<lparr>Finalizers := []\<rparr>)
   \<and> ContainsFinalizer namespaceDeleting deletionFinalizer
   \<and> \<not> ContainsFinalizer (namespaceDeleting\<lparr>Finalizers := []\<rparr>) deletionFinalizer
   \<and> \<not> IsZero (DeletionTimestamp namespaceDeleting)
   \<and> DeleteNamespace_result worldDeleting = None
   \<and> DeleteNamespace (Name namespaceDeleting) \<in> set (calls (Reconcile temporalLib worldDeleting))
   \<and> Get_namespace worldDeletingNotFound = Inr namespaceDeleting
   \<and> kind (Error NamespaceNotFound ''namespace orders not found'') = NamespaceNotFound
   \<and> (\<exists>n'. patched (Reconcile temporalLib worldDeletingNotFound) = Some n'
            \<and> \<not> ContainsFinalizer n' deletionFinalizer)
   \<and> Get_namespace worldRevoked = Inr namespaceRevoked
   \<and> \<not> AllowDeletion namespaceRevoked
   \<and> IsZero (DeletionTimestamp namespaceRevoked)
   \<and> ContainsFinalizer namespaceRevoked deletionFinalizer
   \<and> (\<exists>n'. patched (Reconcile temporalLib worldRevoked) = Some n'
            \<and> ContainsFinalizer n' deletionFinalizer)"
proof -
  have h1: "Get_namespace worldDeleting = Inr namespaceDeleting"
    by (simp add: worldDeleting_def)
  have h2: "NewHelper_result worldDeleting = None"
    by (simp add: worldDeleting_def worldA_def)
  have h3: "patched (Reconcile temporalLib worldDeleting)
              = Some (namespaceDeleting\<lparr>Finalizers := []\<rparr>)"
    by (simp add: passDeleting)
  have c: "ContainsFinalizer namespaceDeleting deletionFinalizer"
    by (simp add: ContainsFinalizer_def namespaceDeleting_def)
  have d: "\<not> ContainsFinalizer (namespaceDeleting\<lparr>Finalizers := []\<rparr>) deletionFinalizer"
    by (simp add: ContainsFinalizer_def)
  have z: "\<not> IsZero (DeletionTimestamp namespaceDeleting)"
    by (simp add: IsZero_def namespaceDeleting_def)
  have g: "\<forall>e. Get_cluster worldDeleting \<noteq> Inl e"
    by (simp add: worldDeleting_def worldA_def)
  have r: "DeleteNamespace_result worldDeleting = None"
    by (simp add: worldDeleting_def worldA_def)
  from finalizer_lifecycle [OF h1 h2 h3] c d g
  have first: "DeleteNamespace (Name namespaceDeleting)
                 \<in> set (calls (Reconcile temporalLib worldDeleting))"
    by blast
  have k1: "Get_namespace worldDeletingNotFound = Inr namespaceDeleting"
    by (simp add: worldDeletingNotFound_def worldDeleting_def)
  have k2: "NewHelper_result worldDeletingNotFound = None"
    by (simp add: worldDeletingNotFound_def worldDeleting_def worldA_def)
  have k3: "patched (Reconcile temporalLib worldDeletingNotFound)
              = Some (namespaceDeleting\<lparr>Finalizers := []\<rparr>)"
    by (simp add: passDeletingNotFound)
  have k4: "Get_cluster worldDeletingNotFound = Inr readyCluster"
    by (simp add: worldDeletingNotFound_def worldDeleting_def worldA_def)
  have k5: "GetClusterClient_result worldDeletingNotFound = None"
    by (simp add: worldDeletingNotFound_def worldDeleting_def worldA_def)
  have k6: "DeleteNamespace_result worldDeletingNotFound
              = Some (Error NamespaceNotFound ''namespace orders not found'')"
    by (simp add: worldDeletingNotFound_def)
  have k7: "kind (Error NamespaceNotFound ''namespace orders not found'') = NamespaceNotFound"
    by simp
  from finalizer_lifecycle [OF k1 k2 k3] c z k4 k5 k6 k7 IsReady_readyCluster
  have "\<not> ContainsFinalizer (namespaceDeleting\<lparr>Finalizers := []\<rparr>) deletionFinalizer"
    by blast
  with k3 have second: "\<exists>n'. patched (Reconcile temporalLib worldDeletingNotFound) = Some n'
            \<and> \<not> ContainsFinalizer n' deletionFinalizer"
    by blast
  have m1: "Get_namespace worldRevoked = Inr namespaceRevoked"
    by (simp add: worldRevoked_def)
  have m2: "NewHelper_result worldRevoked = None"
    by (simp add: worldRevoked_def worldA_def)
  have m3: "\<not> AllowDeletion namespaceRevoked"
    by (simp add: namespaceRevoked_def namespaceA_def)
  have m4: "IsZero (DeletionTimestamp namespaceRevoked)"
    by (simp add: IsZero_def namespaceRevoked_def namespaceA_def)
  have m5: "ContainsFinalizer namespaceRevoked deletionFinalizer"
    by (simp add: ContainsFinalizer_def namespaceRevoked_def)
  from passRevoked obtain n' where m6: "patched (Reconcile temporalLib worldRevoked) = Some n'"
    by (cases "patched (Reconcile temporalLib worldRevoked)") auto
  from finalizer_lifecycle [OF m1 m2 m6] m4 m5
  have "ContainsFinalizer n' deletionFinalizer" by blast
  with m6 have third: "\<exists>n'. patched (Reconcile temporalLib worldRevoked) = Some n'
            \<and> ContainsFinalizer n' deletionFinalizer"
    by blast
  from h1 h2 h3 c d z r first k1 k7 second m1 m3 m4 m5 third show ?thesis by blast
qed


subsection \<open>Registration\<close>

text \<open>
  Claim C5. In a pass that reaches the register call and gets an error from it: if the
  error is "already exists", the update call follows the register call, and when the
  update succeeds the pass ends as the pass in which the register call succeeded
  (same result, error and patched object, the update call being the only difference
  of the traces), while a failing update is what the error condition then reports; any
  other register error ends the pass right there, the namespace client is closed, the
  result is empty and the ReconcileError condition is set to True with the wrapped
  message of the register error.
\<close>

theorem Reconcile_register_already_exists:
  assumes ns: "Get_namespace w = Inr namespace"
    and helper: "NewHelper_result w = None"
    and cl: "Get_cluster w = Inr cluster"
    and ready: "IsReady cluster"
    and live: "IsZero (DeletionTimestamp namespace)"
    and client: "GetClusterNamespaceClient_result w = None"
    and reg: "Register_result w = Some err"
  shows "(kind err = NamespaceAlreadyExists \<longrightarrow>
            take 3 (calls (Reconcile l w))
              = [GetClient NamespaceClient True, Register (Name namespace), Update (Name namespace)]
            \<and> (Update_result w = None \<longrightarrow>
                  result (Reconcile l w) = result (Reconcile l (w\<lparr>Register_result := None\<rparr>))
                  \<and> reterr (Reconcile l w) = reterr (Reconcile l (w\<lparr>Register_result := None\<rparr>))
                  \<and> patched (Reconcile l w) = patched (Reconcile l (w\<lparr>Register_result := None\<rparr>))
                  \<and> calls (Reconcile l w)
                      = take 2 (calls (Reconcile l (w\<lparr>Register_result := None\<rparr>)))
                        @ [Update (Name namespace)]
                        @ drop 2 (calls (Reconcile l (w\<lparr>Register_result := None\<rparr>))))
            \<and> (\<forall>uerr. Update_result w = Some uerr \<longrightarrow>
                  calls (Reconcile l w)
                    = [GetClient NamespaceClient True, Register (Name namespace),
                       Update (Name namespace), Close NamespaceClient]
                  \<and> patched (Reconcile l w)
                      = Some (SetTemporalNamespaceReconcileError (ensureFinalizer namespace)
                                ConditionTrue ReconcileErrorReason (Error_string uerr))))
         \<and> (kind err \<noteq> NamespaceAlreadyExists \<longrightarrow>
              calls (Reconcile l w)
                = [GetClient NamespaceClient True, Register (Name namespace), Close NamespaceClient]
              \<and> result (Reconcile l w) = emptyResult
              \<and> patched (Reconcile l w)
                  = Some (SetTemporalNamespaceReconcileError (ensureFinalizer namespace)
                            ConditionTrue ReconcileErrorReason
                            (''can't create '' @ [CHR 0x22] @ Name namespace @ [CHR 0x22]
                               @ '' namespace: '' @ Error_string err)))"
proof -
  have rc: "reconcileCustomSearchAttributes l (w\<lparr>Register_result := None\<rparr>) n
            = reconcileCustomSearchAttributes l w n" for n
  proof -
    have r: "removeRequest (w\<lparr>Register_result := None\<rparr>) = removeRequest w"
      by (simp add: removeRequest_def fun_eq_iff)
    have a: "addRequest (w\<lparr>Register_result := None\<rparr>) = addRequest w"
      by (simp add: addRequest_def fun_eq_iff)
    show ?thesis
      by (simp add: reconcileCustomSearchAttributes_def r a Let_def
               split: option.splits sum.splits prod.splits)
  qed
  have dp: "deferPatch (w\<lparr>Register_result := None\<rparr>) tr out = deferPatch w tr out" for tr out
    by (simp add: deferPatch_def)
  show ?thesis
    using assms
    by (auto simp: Reconcile_def Let_def rc dp handleError_eq Errorf_w_def
             split: prod.splits option.splits)
qed


theorem Reconcile_register_already_exists_witness:
  "Get_namespace worldExists = Inr namespaceA
   \<and> NewHelper_result worldExists = None
   \<and> Get_cluster worldExists = Inr readyCluster
   \<and> IsReady readyCluster
   \<and> IsZero (DeletionTimestamp namespaceA)
   \<and> GetClusterNamespaceClient_result worldExists = None
   \<and> Register_result worldExists
       = Some (Error NamespaceAlreadyExists ''namespace already exists'')
   \<and> Update_result worldExists = None
   \<and> calls (Reconcile temporalLib worldExists) =
       [GetClient NamespaceClient True, Register ''orders'', Update ''orders'',
        GetClient ClusterClient True, ListSearchAttributes ''orders'',
        RemoveSearchAttributes ''orders'' [''Legacy''],
        AddSearchAttributes ''orders'' [(''Amount'', INDEXED_VALUE_TYPE_INT)],
        Close NamespaceClient]
   \<and> reterr (Reconcile temporalLib worldExists) = reterr (Reconcile temporalLib worldA)"
proof -
  have h1: "Get_namespace worldExists = Inr namespaceA"
    by (simp add: worldExists_def worldA_def)
  have h2: "NewHelper_result worldExists = None" by (simp add: worldExists_def worldA_def)
  have h3: "Get_cluster worldExists = Inr readyCluster" by (simp add: worldExists_def worldA_def)
  note h4 = IsReady_readyCluster
  have h5: "IsZero (DeletionTimestamp namespaceA)" by (simp add: IsZero_def namespaceA_def)
  have h6: "GetClusterNamespaceClient_result worldExists = None"
    by (simp add: worldExists_def worldA_def)
  have h7: "Register_result worldExists
              = Some (Error NamespaceAlreadyExists ''namespace already exists'')"
    by (simp add: worldExists_def)
  have u: "Update_result worldExists = None" by (simp add: worldExists_def worldA_def)
  have n: "Name namespaceA = ''orders''" by (simp add: namespaceA_def)
  from Reconcile_register_already_exists [OF h1 h2 h3 h4 h5 h6 h7, of temporalLib] u
  have "calls (Reconcile temporalLib worldExists)
          = take 2 (calls (Reconcile temporalLib worldA)) @ [Update (Name namespaceA)]
            @ drop 2 (calls (Reconcile temporalLib worldA))
        \<and> reterr (Reconcile temporalLib worldExists) = reterr (Reconcile temporalLib worldA)"
    by (simp add: worldExists_registered)
  then have "calls (Reconcile temporalLib worldExists) =
       [GetClient NamespaceClient True, Register ''orders'', Update ''orders'',
        GetClient ClusterClient True, ListSearchAttributes ''orders'',
        RemoveSearchAttributes ''orders'' [''Legacy''],
        AddSearchAttributes ''orders'' [(''Amount'', INDEXED_VALUE_TYPE_INT)],
        Close NamespaceClient]
      \<and> reterr (Reconcile temporalLib worldExists) = reterr (Reconcile temporalLib worldA)"
    by (simp add: passA n)
  with h1 h2 h3 h4 h5 h6 h7 u show ?thesis by blast
qed


subsection \<open>Errors and requeueing\<close>

text \<open>
  Claim C6 says that with a zero delay the outcome of a failing pass makes the runtime
  retry with its backoff. The pass whose register call fails sets the ReconcileError
  condition and returns the empty result with a nil error, which the runtime forgets.
\<close>

theorem failing_pass_is_not_requeued:
  "Register_result worldRegisterFails = Some (Error OtherError ''connection refused'')
   \<and> patched (Reconcile temporalLib worldRegisterFails)
     = Some (namespaceA\<lparr>Conditions :=
               [(ReconcileErrorCondition,
                 \<lparr>Status = ConditionTrue, Reason = ReconcileErrorReason,
                  Message = ''can't create '' @ [CHR 0x22] @ ''orders'' @ [CHR 0x22]
                            @ '' namespace: connection refused''\<rparr>)]\<rparr>)
   \<and> result (Reconcile temporalLib worldRegisterFails) = \<lparr>Requeue = False, RequeueAfter = 0\<rparr>
   \<and> reterr (Reconcile temporalLib worldRegisterFails) = NilErr
   \<and> runtimeRequeue (result (Reconcile temporalLib worldRegisterFails))
        (reterr (Reconcile temporalLib worldRegisterFails)) = Forget
   \<and> runtimeRequeue (result (Reconcile temporalLib worldRegisterFails))
        (reterr (Reconcile temporalLib worldRegisterFails)) \<noteq> RequeueRateLimited"
  by code_simp


text \<open>
  Claim C6, amended. \<^verbatim>\<open>handleErrorWithRequeue\<close> sets the ReconcileError condition to
  True with the given reason (the default reason when empty) and the message of the
  error, and returns the result with the given delay and a nil error: the runtime
  requeues after a positive delay and forgets the request at delay zero, which is the
  delay \<^verbatim>\<open>handleError\<close> passes. Over a pass that fetched the object: when a step
  fails, the patched object has the ReconcileError condition True with the message of
  that error and the result is empty, and otherwise the condition is as it was; when
  the patch succeeds the returned error is nil, so the runtime forgets the request of
  a failing pass.
\<close>

theorem handleError_requeue:
  "map_of (Conditions (fst (handleErrorWithRequeue namespace reason err requeueAfter)))
       ReconcileErrorCondition
     = Some \<lparr>Status = ConditionTrue,
              Reason = (if reason = [] then ReconcileErrorReason else reason),
              Message = Error_string err\<rparr>
   \<and> snd (handleErrorWithRequeue namespace reason err requeueAfter)
       = (\<lparr>Requeue = False, RequeueAfter = requeueAfter\<rparr>, None)
   \<and> runtimeRequeue (fst (snd (handleErrorWithRequeue namespace reason err requeueAfter))) NilErr
       = (if requeueAfter > 0 then RequeueAfterDelay requeueAfter else Forget)
   \<and> handleError namespace reason err = handleErrorWithRequeue namespace reason err 0
   \<and> (Get_namespace w = Inr n \<and> NewHelper_result w = None \<longrightarrow>
        (\<exists>p. patched (Reconcile l w) = Some p
           \<and> map_of (Conditions p) ReconcileErrorCondition
               = (case passError l w n of
                    None \<Rightarrow> map_of (Conditions n) ReconcileErrorCondition
                  | Some e \<Rightarrow> Some \<lparr>Status = ConditionTrue, Reason = ReconcileErrorReason,
                                    Message = Error_string e\<rparr>))
        \<and> (passError l w n \<noteq> None \<longrightarrow> result (Reconcile l w) = emptyResult)
        \<and> (Patch_result w = None \<longrightarrow>
             reterr (Reconcile l w) = NilErr
             \<and> (passError l w n \<noteq> None \<longrightarrow>
                  runtimeRequeue (result (Reconcile l w)) (reterr (Reconcile l w)) = Forget)))"
proof -
  have a: "map_of (Conditions (fst (handleErrorWithRequeue namespace reason err requeueAfter)))
             ReconcileErrorCondition
           = Some \<lparr>Status = ConditionTrue,
                    Reason = (if reason = [] then ReconcileErrorReason else reason),
                    Message = Error_string err\<rparr>"
    by (simp add: handleErrorWithRequeue_def Conditions_SetError)
  have b: "snd (handleErrorWithRequeue namespace reason err requeueAfter)
             = (\<lparr>Requeue = False, RequeueAfter = requeueAfter\<rparr>, None)"
    by (simp add: handleErrorWithRequeue_def Let_def)
  have c: "runtimeRequeue (fst (snd (handleErrorWithRequeue namespace reason err requeueAfter)))
             NilErr
           = (if requeueAfter > 0 then RequeueAfterDelay requeueAfter else Forget)"
    by (simp add: b runtimeRequeue_def)
  have d: "handleError namespace reason err = handleErrorWithRequeue namespace reason err 0"
    by (simp add: handleError_def)
  have e: "\<exists>p. patched (Reconcile l w) = Some p
           \<and> map_of (Conditions p) ReconcileErrorCondition
               = (case passError l w n of
                    None \<Rightarrow> map_of (Conditions n) ReconcileErrorCondition
                  | Some e \<Rightarrow> Some \<lparr>Status = ConditionTrue, Reason = ReconcileErrorReason,
                                    Message = Error_string e\<rparr>)"
    if "Get_namespace w = Inr n" "NewHelper_result w = None"
    using that
    by (auto simp: Reconcile_def passError_def Let_def handleError_eq handleSuccess_eq
                   Conditions_SetError Conditions_SetReady_Success Errorf_w_def
             split: sum.splits option.splits prod.splits
             dest: Conditions_ensureNamespaceDeleted)
  have f: "result (Reconcile l w) = emptyResult"
    if "Get_namespace w = Inr n" "NewHelper_result w = None" "passError l w n \<noteq> None"
    using that
    by (auto simp: Reconcile_def passError_def Let_def handleError_eq handleSuccess_eq
             split: sum.splits option.splits prod.splits if_splits)
  have g: "reterr (Reconcile l w) = NilErr"
    if "Get_namespace w = Inr n" "NewHelper_result w = None" "Patch_result w = None"
    using that
    by (auto simp: Reconcile_def Let_def handleError_eq handleSuccess_eq
             split: sum.splits option.splits prod.splits)
  have h: "runtimeRequeue (result (Reconcile l w)) (reterr (Reconcile l w)) = Forget"
    if "Get_namespace w = Inr n" "NewHelper_result w = None" "Patch_result w = None"
       "passError l w n \<noteq> None"
    using f [OF that(1,2,4)] g [OF that(1,2,3)] by simp
  from a b c d e f g h show ?thesis by blast
qed


theorem handleError_requeue_witness:
  "Get_namespace worldRegisterFails = Inr namespaceA
   \<and> NewHelper_result worldRegisterFails = None
   \<and> Patch_result worldRegisterFails = None
   \<and> passError temporalLib worldRegisterFails namespaceA \<noteq> None
   \<and> result (Reconcile temporalLib worldRegisterFails) = emptyResult
   \<and> reterr (Reconcile temporalLib worldRegisterFails) = NilErr
   \<and> runtimeRequeue (result (Reconcile temporalLib worldRegisterFails))
        (reterr (Reconcile temporalLib worldRegisterFails)) = Forget"
proof -
  have h1: "Get_namespace worldRegisterFails = Inr namespaceA"
    by (simp add: worldRegisterFails_def worldA_def)
  have h2: "NewHelper_result worldRegisterFails = None"
    by (simp add: worldRegisterFails_def worldA_def)
  have h3: "Patch_result worldRegisterFails = None"
    by (simp add: worldRegisterFails_def worldA_def)
  have h4: "passError temporalLib worldRegisterFails namespaceA \<noteq> None"
    by (simp add: passError_RegisterFails)
  from handleError_requeue [of namespaceA "[]" "Error OtherError []" 0 worldRegisterFails
                              namespaceA temporalLib]
       h1 h2 h3 h4
  have "result (Reconcile temporalLib worldRegisterFails) = emptyResult
        \<and> reterr (Reconcile temporalLib worldRegisterFails) = NilErr
        \<and> runtimeRequeue (result (Reconcile temporalLib worldRegisterFails))
             (reterr (Reconcile temporalLib worldRegisterFails)) = Forget"
    by blast
  with h1 h2 h3 h4 show ?thesis by blast
qed


subsection \<open>Client connections\<close>

text \<open>
  Claim C7 on world A: the pass obtains the namespace client and closes it, and obtains
  the cluster client in \<^verbatim>\<open>reconcileCustomSearchAttributes\<close> and never closes it; the
  pass returns without error with that connection open.
\<close>

theorem Reconcile_leaves_cluster_client_open:
  "calls (Reconcile temporalLib worldA) =
     [GetClient NamespaceClient True, Register ''orders'',
      GetClient ClusterClient True, ListSearchAttributes ''orders'',
      RemoveSearchAttributes ''orders'' [''Legacy''],
      AddSearchAttributes ''orders'' [(''Amount'', INDEXED_VALUE_TYPE_INT)],
      Close NamespaceClient]
   \<and> openClients (calls (Reconcile temporalLib worldA)) [] = [ClusterClient]
   \<and> reterr (Reconcile temporalLib worldA) = NilErr"
  by code_simp


subsection \<open>Deletion without the finalizer\<close>

text \<open>
  Claim C10. For a namespace object that does not carry the deletion finalizer,
  \<^verbatim>\<open>ensureNamespaceDeleted\<close> returns no error, leaves the object as it is and makes no
  client call; a pass over such an object under deletion makes no client call either.
\<close>

theorem ensureNamespaceDeleted_without_finalizer:
  assumes "\<not> ContainsFinalizer namespace deletionFinalizer"
  shows "ensureNamespaceDeleted w namespace cluster = (None, namespace, [])
         \<and> (Get_namespace w = Inr namespace \<and> \<not> IsZero (DeletionTimestamp namespace)
              \<longrightarrow> calls (Reconcile l w) = [])"
  using assms
  by (auto simp: Reconcile_def ensureNamespaceDeleted_def split: sum.splits option.splits)


theorem ensureNamespaceDeleted_without_finalizer_witness:
  "\<not> ContainsFinalizer namespaceNoFinalizer deletionFinalizer
   \<and> Get_namespace worldNoFinalizer = Inr namespaceNoFinalizer
   \<and> \<not> IsZero (DeletionTimestamp namespaceNoFinalizer)
   \<and> ensureNamespaceDeleted worldNoFinalizer namespaceNoFinalizer readyCluster
       = (None, namespaceNoFinalizer, [])
   \<and> calls (Reconcile temporalLib worldNoFinalizer) = []"
proof -
  have h: "\<not> ContainsFinalizer namespaceNoFinalizer deletionFinalizer"
    by (simp add: ContainsFinalizer_def namespaceNoFinalizer_def namespaceA_def)
  have g: "Get_namespace worldNoFinalizer = Inr namespaceNoFinalizer"
    by (simp add: worldNoFinalizer_def)
  have z: "\<not> IsZero (DeletionTimestamp namespaceNoFinalizer)"
    by (simp add: IsZero_def namespaceNoFinalizer_def)
  from ensureNamespaceDeleted_without_finalizer
         [OF h, of worldNoFinalizer readyCluster temporalLib] g z h
  show ?thesis by simp
qed


section \<open>Properties of the defaults\<close>

subsection \<open>The blocks, field by field\<close>

lemma serviceDefaults_idem:
  "serviceDefaults p m (Some (serviceDefaults p m svc)) = serviceDefaults p m svc"
  by (simp add: serviceDefaults_def Let_def split: option.splits)


lemma serviceDefaults_set: "serviceSet (Some (serviceDefaults p m svc))"
  by (simp add: serviceDefaults_def serviceSet_def Let_def split: option.splits)


lemma serviceDefaults_keeps: "keepsService svc (Some (serviceDefaults p m svc))"
  by (simp add: serviceDefaults_def keepsService_def keepsOption_def Let_def split: option.splits)


lemma datastoreDefaults_idem: "datastoreDefaults (datastoreDefaults d) = datastoreDefaults d"
  by (simp add: datastoreDefaults_def split: option.splits)


lemma datastoreDefaults_set: "datastoreSet (datastoreDefaults d)"
  by (simp add: datastoreDefaults_def datastoreSet_def split: option.splits)


lemma datastoreDefaults_keeps: "keepsDatastore d (datastoreDefaults d)"
  by (simp add: datastoreDefaults_def keepsDatastore_def keepsString_def split: option.splits)


lemma certificatesDurationDefaults_Some:
  "certificatesDurationDefaults (Some d) =
     \<lparr> RootCACertificate = orDefault (Hour * 87600) (RootCACertificate d),
       IntermediateCAsCertificates = orDefault (Hour * 43830) (IntermediateCAsCertificates d),
       ClientCertificates = orDefault (Hour * 8766) (ClientCertificates d),
       FrontendCertificate = orDefault (Hour * 8766) (FrontendCertificate d),
       InternodeCertificate = orDefault (Hour * 8766) (InternodeCertificate d) \<rparr>"
  by (cases d) (auto simp: certificatesDurationDefaults_def Let_def orDefault_def)


lemma certificatesDurationDefaults_None:
  "certificatesDurationDefaults None =
     \<lparr> RootCACertificate = Some (Hour * 87600),
       IntermediateCAsCertificates = Some (Hour * 43830),
       ClientCertificates = Some (Hour * 8766),
       FrontendCertificate = Some (Hour * 8766),
       InternodeCertificate = Some (Hour * 8766) \<rparr>"
  by (simp add: certificatesDurationDefaults_def Let_def)


lemma orDefault_idem [simp]: "orDefault v (orDefault v x) = orDefault v x"
  by (simp add: orDefault_def split: option.splits)


lemma orDefault_Some [simp]: "orDefault v (Some y) = Some y"
  by (simp add: orDefault_def)


lemma orDefault_not_None [simp]: "orDefault v x \<noteq> None"
  by (simp add: orDefault_def split: option.splits)


lemma orDefault_is_Some [simp]: "\<exists>y. orDefault v x = Some y"
  by (simp add: orDefault_def split: option.splits)


lemma keepsOption_orDefault [simp]: "keepsOption x (orDefault v x)"
  by (simp add: keepsOption_def orDefault_def split: option.splits)


lemma keepsOption_refl [simp]: "keepsOption x x"
  by (simp add: keepsOption_def split: option.splits)


lemma keepsCertificatesDuration_refl [simp]: "keepsCertificatesDuration x x"
  by (simp add: keepsCertificatesDuration_def split: option.splits)


lemma certificatesDurationDefaults_idem:
  "certificatesDurationDefaults (Some (certificatesDurationDefaults cd))
     = certificatesDurationDefaults cd"
  by (cases cd) (simp_all add: certificatesDurationDefaults_Some certificatesDurationDefaults_None)


lemma certificatesDurationDefaults_keeps:
  "keepsCertificatesDuration cd (Some (certificatesDurationDefaults cd))"
  by (cases cd)
     (simp_all add: certificatesDurationDefaults_Some keepsCertificatesDuration_def)


lemma certificatesDurationDefaults_set:
  "RootCACertificate (certificatesDurationDefaults cd) \<noteq> None
   \<and> IntermediateCAsCertificates (certificatesDurationDefaults cd) \<noteq> None
   \<and> ClientCertificates (certificatesDurationDefaults cd) \<noteq> None
   \<and> FrontendCertificate (certificatesDurationDefaults cd) \<noteq> None
   \<and> InternodeCertificate (certificatesDurationDefaults cd) \<noteq> None"
  by (cases cd) (simp_all add: certificatesDurationDefaults_Some certificatesDurationDefaults_None)


lemma versionDefaults_fields:
  "versionDefaults spec =
     spec\<lparr>Version := (if Version spec = [] then defaultTemporalVersion else Version spec)\<rparr>"
  by (simp add: versionDefaults_def)


lemma imageDefaults_fields:
  "imageDefaults spec =
     spec\<lparr>Image := (if Image spec = [] then defaultTemporalImage else Image spec)\<rparr>"
  by (simp add: imageDefaults_def)


lemma servicesDefaults_fields:
  "servicesDefaults spec =
     spec\<lparr>Services := Some
       \<lparr> Frontend = Some (serviceDefaults 7233 6933 (Option.bind (Services spec) Frontend)),
         History = Some (serviceDefaults 7234 6934 (Option.bind (Services spec) History)),
         Matching = Some (serviceDefaults 7235 6935 (Option.bind (Services spec) Matching)),
         Worker = Some (serviceDefaults 7239 6939 (Option.bind (Services spec) Worker)) \<rparr>\<rparr>"
  by (cases "Services spec") (simp_all add: servicesDefaults_def Let_def)


lemma visibilityStoreDefaults_fields:
  "visibilityStoreDefaults spec =
     spec\<lparr>Persistence :=
       \<lparr> DefaultStore = DefaultStore (Persistence spec),
         VisibilityStore = (if VisibilityStore (Persistence spec) = []
                            then DefaultStore (Persistence spec)
                            else VisibilityStore (Persistence spec)) \<rparr>\<rparr>"
  by (cases "Persistence spec") (simp add: visibilityStoreDefaults_def)


lemma uiDefaults_fields:
  "uiDefaults spec =
     spec\<lparr>UI := Some
       \<lparr> UIVersion = (case UI spec of None \<Rightarrow> defaultTemporalUIVersion
                      | Some u \<Rightarrow> if UIVersion u = [] then defaultTemporalUIVersion
                                  else UIVersion u),
         UIImage = (case UI spec of None \<Rightarrow> defaultTemporalUIImage
                    | Some u \<Rightarrow> if UIImage u = [] then defaultTemporalUIImage
                                else UIImage u) \<rparr>\<rparr>"
  by (cases "UI spec") (auto simp: uiDefaults_def Let_def)


lemma adminToolsDefaults_fields:
  "adminToolsDefaults spec =
     spec\<lparr>AdminTools := Some
       \<lparr> AdminToolsImage =
           (case AdminTools spec of None \<Rightarrow> defaultTemporalAdmintoolsImage
            | Some a \<Rightarrow> if AdminToolsImage a = [] then defaultTemporalAdmintoolsImage
                        else AdminToolsImage a) \<rparr>\<rparr>"
  by (cases "AdminTools spec") (auto simp: adminToolsDefaults_def Let_def)


lemma mtlsDefaults_fields:
  "mtlsDefaults spec =
     spec\<lparr>MTLS :=
       (case MTLS spec of
          None \<Rightarrow> None
        | Some m \<Rightarrow>
            if Provider m = CertManagerMTLSProvider
            then Some (m\<lparr>RefreshInterval := orDefault Hour (RefreshInterval m),
                         CertificatesDuration :=
                           Some (certificatesDurationDefaults (CertificatesDuration m))\<rparr>)
            else Some m)\<rparr>"
  by (cases "MTLS spec")
     (auto simp: mtlsDefaults_def MTLSWithCertManagerEnabled_def Let_def orDefault_def)


lemmas defaults_fields =
  versionDefaults_fields imageDefaults_fields servicesDefaults_fields datastoresDefaults_def
  visibilityStoreDefaults_fields uiDefaults_fields adminToolsDefaults_fields mtlsDefaults_fields


lemma reconcileDefaults_fields:
  "snd (reconcileDefaults s) =
     s\<lparr> Version := (if Version s = [] then defaultTemporalVersion else Version s),
        Image := (if Image s = [] then defaultTemporalImage else Image s),
        Services := Some
         \<lparr> Frontend = Some (serviceDefaults 7233 6933 (Option.bind (Services s) Frontend)),
           History = Some (serviceDefaults 7234 6934 (Option.bind (Services s) History)),
           Matching = Some (serviceDefaults 7235 6935 (Option.bind (Services s) Matching)),
           Worker = Some (serviceDefaults 7239 6939 (Option.bind (Services s) Worker)) \<rparr>,
        Datastores := map datastoreDefaults (Datastores s),
        Persistence :=
         \<lparr> DefaultStore = DefaultStore (Persistence s),
           VisibilityStore = (if VisibilityStore (Persistence s) = []
                              then DefaultStore (Persistence s)
                              else VisibilityStore (Persistence s)) \<rparr>,
        UI := Some
         \<lparr> UIVersion = (case UI s of None \<Rightarrow> defaultTemporalUIVersion
                        | Some u \<Rightarrow> if UIVersion u = [] then defaultTemporalUIVersion
                                    else UIVersion u),
           UIImage = (case UI s of None \<Rightarrow> defaultTemporalUIImage
                      | Some u \<Rightarrow> if UIImage u = [] then defaultTemporalUIImage
                                  else UIImage u) \<rparr>,
        AdminTools := Some
         \<lparr> AdminToolsImage =
             (case AdminTools s of None \<Rightarrow> defaultTemporalAdmintoolsImage
              | Some a \<Rightarrow> if AdminToolsImage a = [] then defaultTemporalAdmintoolsImage
                          else AdminToolsImage a) \<rparr>,
        MTLS :=
         (case MTLS s of
            None \<Rightarrow> None
          | Some m \<Rightarrow>
              if Provider m = CertManagerMTLSProvider
              then Some (m\<lparr>RefreshInterval := orDefault Hour (RefreshInterval m),
                           CertificatesDuration :=
                             Some (certificatesDurationDefaults (CertificatesDuration m))\<rparr>)
              else Some m) \<rparr>"
  by (simp add: reconcileDefaults_def Let_def defaults_fields)


lemma defaults_nonempty:
  "defaultTemporalVersion \<noteq> []" "defaultTemporalImage \<noteq> []"
  "defaultTemporalUIVersion \<noteq> []" "defaultTemporalUIImage \<noteq> []"
  "defaultTemporalAdmintoolsImage \<noteq> []"
  by (simp_all add: defaultTemporalVersion_def defaultTemporalImage_def
        defaultTemporalUIVersion_def defaultTemporalUIImage_def
        defaultTemporalAdmintoolsImage_def)


lemma reconcileDefaults_flag: "fst (reconcileDefaults s) = (s \<noteq> snd (reconcileDefaults s))"
  by (simp add: reconcileDefaults_def Let_def)


lemma reconcileDefaults_defaultsSet: "defaultsSet (snd (reconcileDefaults s))"
  by (simp add: reconcileDefaults_fields defaultsSet_def defaults_nonempty serviceDefaults_set
        list_all_iff datastoreDefaults_set mtlsSet_def certificatesDurationDefaults_set
        split: option.splits)


lemma reconcileDefaults_snd_idem:
  "snd (reconcileDefaults (snd (reconcileDefaults s))) = snd (reconcileDefaults s)"
  by (simp add: reconcileDefaults_fields [of "snd (reconcileDefaults s)"])
     (simp add: reconcileDefaults_fields [of s] defaults_nonempty serviceDefaults_idem
        datastoreDefaults_idem certificatesDurationDefaults_idem
        split: option.splits)


lemma reconcileDefaults_keeps: "keepsSpec s (snd (reconcileDefaults s))"
  by (simp add: reconcileDefaults_fields keepsSpec_def keepsString_def serviceDefaults_keeps
        list_all2_map2 list_all2_same datastoreDefaults_keeps certificatesDurationDefaults_keeps
        split: option.splits)


lemma userSpec_normalized:
  "snd (reconcileDefaults userSpec) =
     \<lparr> Version = ''1.20.0'', Image = ''temporalio/server'',
       Services = Some \<lparr> Frontend = Some \<lparr>Replicas = Some 3, Port = Some 7233,
                                          MembershipPort = Some 6933, HTTPPort = Some 7243\<rparr>,
                         History = Some \<lparr>Replicas = Some 1, Port = Some 7234,
                                         MembershipPort = Some 6934, HTTPPort = None\<rparr>,
                         Matching = Some \<lparr>Replicas = Some 1, Port = Some 7235,
                                          MembershipPort = Some 6935, HTTPPort = None\<rparr>,
                         Worker = Some \<lparr>Replicas = Some 1, Port = Some 7239,
                                        MembershipPort = Some 6939, HTTPPort = None\<rparr> \<rparr>,
       Datastores = [\<lparr>DatastoreName = ''default'',
                       SQL = Some \<lparr>ConnectAddr = ''db:5432'', ConnectProtocol = ''tcp''\<rparr>\<rparr>],
       Persistence = \<lparr>DefaultStore = ''default'', VisibilityStore = ''default''\<rparr>,
       UI = Some \<lparr>UIVersion = ''2.5.0'', UIImage = ''temporalio/ui''\<rparr>,
       AdminTools = Some \<lparr>AdminToolsImage = ''temporalio/admin-tools''\<rparr>,
       MTLS = Some \<lparr>Provider = ''cert-manager'', RefreshInterval = Some 3600000000000,
                     CertificatesDuration =
                       Some \<lparr>RootCACertificate = Some 315360000000000000,
                             IntermediateCAsCertificates = Some 157788000000000000,
                             ClientCertificates = Some 31557600000000000,
                             FrontendCertificate = Some 31557600000000000,
                             InternodeCertificate = Some 31557600000000000\<rparr>\<rparr> \<rparr>"
  by code_simp


lemma emptySpec_services:
  "Services (snd (reconcileDefaults emptySpec)) =
     Some \<lparr> Frontend = Some \<lparr>Replicas = Some 1, Port = Some 7233,
                              MembershipPort = Some 6933, HTTPPort = None\<rparr>,
            History = Some \<lparr>Replicas = Some 1, Port = Some 7234,
                             MembershipPort = Some 6934, HTTPPort = None\<rparr>,
            Matching = Some \<lparr>Replicas = Some 1, Port = Some 7235,
                              MembershipPort = Some 6935, HTTPPort = None\<rparr>,
            Worker = Some \<lparr>Replicas = Some 1, Port = Some 7239,
                            MembershipPort = Some 6939, HTTPPort = None\<rparr> \<rparr>"
  by code_simp


subsection \<open>Fixed point\<close>

text \<open>
  Claim C8 says that after one call every optional field the function governs is set.
  On the spec with nothing set the visibility store is still empty after the call: its
  default is the default store, which is empty there.
\<close>

theorem visibilityStore_stays_unset:
  "VisibilityStore (Persistence emptySpec) = []
   \<and> VisibilityStore (Persistence (snd (reconcileDefaults emptySpec))) = []
   \<and> \<not> visibilityStoreSet (snd (reconcileDefaults emptySpec))"
  by code_simp


text \<open>
  Claim C8, amended. After one call every optional field the function governs is set
  (the mutual-TLS durations when mutual TLS with the certificate manager is enabled),
  the visibility store apart: it holds its old value when it had one and the default
  store otherwise, so it is set whenever the default store is. A second call on the
  resulting spec returns false and the same spec. The flag of a call tells whether the
  spec changed, and no field that was set is cleared or given another value.
\<close>

theorem reconcileDefaults_fixed_point:
  "defaultsSet (snd (reconcileDefaults spec))
   \<and> VisibilityStore (Persistence (snd (reconcileDefaults spec)))
       = (if VisibilityStore (Persistence spec) = [] then DefaultStore (Persistence spec)
          else VisibilityStore (Persistence spec))
   \<and> (DefaultStore (Persistence spec) \<noteq> [] \<longrightarrow> visibilityStoreSet (snd (reconcileDefaults spec)))
   \<and> reconcileDefaults (snd (reconcileDefaults spec)) = (False, snd (reconcileDefaults spec))
   \<and> fst (reconcileDefaults spec) = (spec \<noteq> snd (reconcileDefaults spec))
   \<and> keepsSpec spec (snd (reconcileDefaults spec))"
proof -
  have v: "VisibilityStore (Persistence (snd (reconcileDefaults spec)))
       = (if VisibilityStore (Persistence spec) = [] then DefaultStore (Persistence spec)
          else VisibilityStore (Persistence spec))"
    by (simp add: reconcileDefaults_fields)
  then have vs: "DefaultStore (Persistence spec) \<noteq> [] \<longrightarrow>
                 visibilityStoreSet (snd (reconcileDefaults spec))"
    by (simp add: visibilityStoreSet_def)
  have "fst (reconcileDefaults (snd (reconcileDefaults spec))) = False"
    by (simp add: reconcileDefaults_flag reconcileDefaults_snd_idem)
  then have fp: "reconcileDefaults (snd (reconcileDefaults spec))
                   = (False, snd (reconcileDefaults spec))"
    using reconcileDefaults_snd_idem [of spec] by (simp add: prod_eq_iff)
  from reconcileDefaults_defaultsSet [of spec] v vs fp reconcileDefaults_flag [of spec]
       reconcileDefaults_keeps [of spec]
  show ?thesis by blast
qed


theorem reconcileDefaults_fixed_point_witness:
  "DefaultStore (Persistence userSpec) \<noteq> []
   \<and> fst (reconcileDefaults userSpec)
   \<and> visibilityStoreSet (snd (reconcileDefaults userSpec))
   \<and> defaultsSet (snd (reconcileDefaults userSpec))
   \<and> reconcileDefaults (snd (reconcileDefaults userSpec)) = (False, snd (reconcileDefaults userSpec))
   \<and> keepsSpec userSpec (snd (reconcileDefaults userSpec))"
proof -
  have h: "DefaultStore (Persistence userSpec) \<noteq> []" by (simp add: userSpec_def)
  have c: "userSpec \<noteq> snd (reconcileDefaults userSpec)"
    by (simp add: userSpec_normalized) (simp add: userSpec_def)
  from reconcileDefaults_fixed_point [of userSpec] h c show ?thesis by blast
qed


section \<open>Properties of the frontend service builder\<close>

text \<open>
  Claim C9. For a cluster spec whose frontend port is set, \<^verbatim>\<open>Update\<close> returns, and the
  ports of the service it leaves are the gRPC port alone when the frontend's HTTP port
  is unset, and the gRPC port followed by the HTTP port when it is set.
\<close>

theorem FrontendServiceBuilder_Update_ports:
  assumes "Services (builderInstance b) = Some services"
    and "Frontend services = Some frontend"
    and "Port frontend = Some port"
  shows "\<exists>err service.
           FrontendServiceBuilder_Update b object = Returns (err, service)
           \<and> Ports service =
               (case HTTPPort frontend of
                  None \<Rightarrow> [\<lparr>PortName = ''grpc-rpc'', Protocol = ''TCP'',
                             PortNumber = port, TargetPort = ''rpc''\<rparr>]
                | Some httpPort \<Rightarrow>
                    [\<lparr>PortName = ''grpc-rpc'', Protocol = ''TCP'',
                      PortNumber = port, TargetPort = ''rpc''\<rparr>,
                     \<lparr>PortName = ''http'', Protocol = ''TCP'',
                      PortNumber = httpPort, TargetPort = ''http''\<rparr>])
           \<and> length (Ports service) = (if HTTPPort frontend = None then 1 else 2)"
  using assms
  by (auto simp: FrontendServiceBuilder_Update_def Let_def split: option.splits)


theorem FrontendServiceBuilder_Update_ports_witness:
  "(\<exists>err service.
      FrontendServiceBuilder_Update (builderFor (snd (reconcileDefaults emptySpec))) emptyService
        = Returns (err, service)
      \<and> Ports service = [\<lparr>PortName = ''grpc-rpc'', Protocol = ''TCP'',
                           PortNumber = 7233, TargetPort = ''rpc''\<rparr>])
   \<and> (\<exists>err service.
      FrontendServiceBuilder_Update (builderFor (snd (reconcileDefaults userSpec))) emptyService
        = Returns (err, service)
      \<and> Ports service = [\<lparr>PortName = ''grpc-rpc'', Protocol = ''TCP'',
                           PortNumber = 7233, TargetPort = ''rpc''\<rparr>,
                         \<lparr>PortName = ''http'', Protocol = ''TCP'',
                           PortNumber = 7243, TargetPort = ''http''\<rparr>])"
proof -
  let ?fe = "\<lparr>Replicas = Some 1, Port = Some 7233, MembershipPort = Some 6933, HTTPPort = None\<rparr>"
  let ?fu = "\<lparr>Replicas = Some 3, Port = Some 7233, MembershipPort = Some 6933,
              HTTPPort = Some 7243\<rparr>"
  have e1: "Services (builderInstance (builderFor (snd (reconcileDefaults emptySpec)))) =
     Some \<lparr> Frontend = Some ?fe,
            History = Some \<lparr>Replicas = Some 1, Port = Some 7234,
                             MembershipPort = Some 6934, HTTPPort = None\<rparr>,
            Matching = Some \<lparr>Replicas = Some 1, Port = Some 7235,
                              MembershipPort = Some 6935, HTTPPort = None\<rparr>,
            Worker = Some \<lparr>Replicas = Some 1, Port = Some 7239,
                            MembershipPort = Some 6939, HTTPPort = None\<rparr> \<rparr>"
    by (simp add: builderFor_def emptySpec_services)
  have u1: "Services (builderInstance (builderFor (snd (reconcileDefaults userSpec)))) =
     Some \<lparr> Frontend = Some ?fu,
            History = Some \<lparr>Replicas = Some 1, Port = Some 7234,
                             MembershipPort = Some 6934, HTTPPort = None\<rparr>,
            Matching = Some \<lparr>Replicas = Some 1, Port = Some 7235,
                              MembershipPort = Some 6935, HTTPPort = None\<rparr>,
            Worker = Some \<lparr>Replicas = Some 1, Port = Some 7239,
                            MembershipPort = Some 6939, HTTPPort = None\<rparr> \<rparr>"
    by (simp add: builderFor_def userSpec_normalized)
  have a: "\<exists>err service.
      FrontendServiceBuilder_Update (builderFor (snd (reconcileDefaults emptySpec))) emptyService
        = Returns (err, service)
      \<and> Ports service = [\<lparr>PortName = ''grpc-rpc'', Protocol = ''TCP'',
                           PortNumber = 7233, TargetPort = ''rpc''\<rparr>]"
    using FrontendServiceBuilder_Update_ports [OF e1, of ?fe 7233 emptyService] by auto
  have b: "\<exists>err service.
      FrontendServiceBuilder_Update (builderFor (snd (reconcileDefaults userSpec))) emptyService
        = Returns (err, service)
      \<and> Ports service = [\<lparr>PortName = ''grpc-rpc'', Protocol = ''TCP'',
                           PortNumber = 7233, TargetPort = ''rpc''\<rparr>,
                         \<lparr>PortName = ''http'', Protocol = ''TCP'',
                           PortNumber = 7243, TargetPort = ''http''\<rparr>]"
    using FrontendServiceBuilder_Update_ports [OF u1, of ?fu 7233 emptyService] by auto
  from a b show ?thesis by blast
qed

end
